theory Spec2Isabelle
  imports Complex_Main
begin

section \<open>JavaScript values and string helpers\<close>

text \<open>
  A metric reading is a JavaScript number or the string \<^verbatim>\<open>"N/A"\<close>. Finite numbers are
  rationals (every double is one); the two infinities and NaN are separate values, and
  \<open>NA\<close> stands for the string \<^verbatim>\<open>"N/A"\<close>, the only string a collector puts in a numeric
  field.
\<close>

datatype reading = Num rat | PosInf | NegInf | NaN | NA

text \<open>
  \<^verbatim>\<open>v > c\<close> and \<^verbatim>\<open>v < c\<close> against a numeric literal \<open>c\<close>: the operand is converted to a
  number first, \<^verbatim>\<open>"N/A"\<close> converts to NaN, and every comparison with NaN is false.
\<close>

fun js_gt :: "reading \<Rightarrow> rat \<Rightarrow> bool" where
  "js_gt (Num x) c = (x > c)"
| "js_gt PosInf c = True"
| "js_gt NegInf c = False"
| "js_gt NaN c = False"
| "js_gt NA c = False"

fun js_lt :: "reading \<Rightarrow> rat \<Rightarrow> bool" where
  "js_lt (Num x) c = (x < c)"
| "js_lt PosInf c = False"
| "js_lt NegInf c = True"
| "js_lt NaN c = False"
| "js_lt NA c = False"

text \<open>The global \<^verbatim>\<open>isNaN\<close>, which converts its argument to a number first.\<close>

fun isNaN :: "reading \<Rightarrow> bool" where
  "isNaN NaN = True"
| "isNaN NA = True"
| "isNaN _ = False"

text \<open>Decimal digits of a natural number.\<close>

fun digits :: "nat \<Rightarrow> string" where
  "digits n =
     (if n < 10 then [''0123456789'' ! n]
      else digits (n div 10) @ [''0123456789'' ! (n mod 10)])"

declare digits.simps [simp del]

definition show_int :: "int \<Rightarrow> string" where
  "show_int i = (if i < 0 then ''-'' @ digits (nat (- i)) else digits (nat i))"

text \<open>
  Number-to-string conversion inside a template literal. A reading \<open>Num q\<close> stands for the
  double nearest to \<open>q\<close>. For a decimal \<open>q\<close> of at most 15 significant digits, of magnitude
  between \<^verbatim>\<open>1e-6\<close> and \<^verbatim>\<open>1e21\<close>, JavaScript prints the digits of \<open>q\<close>: the integer part
  and, if the fraction is not zero, a point and the decimals up to the last one that is not
  zero. \<open>frac_digits\<close> produces the decimals of a fraction \<open>0 \<le> r < 1\<close>, at most as many as
  its first argument says; \<open>show_num\<close> asks for 17, more than such a \<open>q\<close> has. The collectors
  round their percentages to two decimals (\<^verbatim>\<open>Math.round(x * 100) / 100\<close>, PowerShell's
  \<^verbatim>\<open>[math]::Round(_, 2)\<close>).
\<close>

fun frac_digits :: "nat \<Rightarrow> rat \<Rightarrow> string" where
  "frac_digits 0 r = []"
| "frac_digits (Suc n) r =
     (if r = 0 then []
      else digits (nat \<lfloor>r * 10\<rfloor>) @ frac_digits n (r * 10 - of_int \<lfloor>r * 10\<rfloor>))"

definition show_num :: "rat \<Rightarrow> string" where
  "show_num q =
     (let a = \<bar>q\<bar>;
          ip = nat \<lfloor>a\<rfloor>;
          fr = a - of_int \<lfloor>a\<rfloor>;
          body = digits ip @ (if fr = 0 then [] else ''.'' @ frac_digits 17 fr)
      in if q < 0 then ''-'' @ body else body)"

fun show_reading :: "reading \<Rightarrow> string" where
  "show_reading (Num q) = show_num q"
| "show_reading PosInf = ''Infinity''"
| "show_reading NegInf = ''-Infinity''"
| "show_reading NaN = ''NaN''"
| "show_reading NA = ''N/A''"

text \<open>\<^verbatim>\<open>s.includes(p)\<close>: \<open>p\<close> occurs in \<open>s\<close> as a contiguous substring.\<close>

fun str_includes :: "string \<Rightarrow> string \<Rightarrow> bool" where
  "str_includes [] p = (p = [])"
| "str_includes (c # cs) p = (take (length p) (c # cs) = p \<or> str_includes cs p)"

text \<open>\<^verbatim>\<open>xs.join(sep)\<close> on an array of strings.\<close>

fun join :: "string \<Rightarrow> string list \<Rightarrow> string" where
  "join sep [] = []"
| "join sep [x] = x"
| "join sep (x # y # ys) = x @ sep @ join sep (y # ys)"

text \<open>
  White space. A string is the UTF-8 encoding of the JavaScript string (the output of a
  command is decoded as UTF-8). The characters that \<^verbatim>\<open>trim\<close> and \<^verbatim>\<open>parseInt\<close> treat as
  white space are tab, line feed, vertical tab, form feed, carriage return and space, one
  byte each; the no-break space U+00A0, two bytes; and, three bytes each, U+1680,
  U+2000 to U+200A, the separators U+2028 and U+2029, U+202F, U+205F, U+3000 and the byte
  order mark U+FEFF.
\<close>

definition is_space :: "char \<Rightarrow> bool" where
  "is_space c = (c \<in> set [CHR 0x09, CHR 0x0A, CHR 0x0B, CHR 0x0C, CHR 0x0D, CHR 0x20])"

definition is_space2 :: "char \<Rightarrow> char \<Rightarrow> bool" where
  "is_space2 c1 c2 = (c1 = CHR 0xC2 \<and> c2 = CHR 0xA0)"

definition is_space3 :: "char \<Rightarrow> char \<Rightarrow> char \<Rightarrow> bool" where
  "is_space3 c1 c2 c3 =
     ((c1 = CHR 0xE1 \<and> c2 = CHR 0x9A \<and> c3 = CHR 0x80) \<or>
      (c1 = CHR 0xE2 \<and> c2 = CHR 0x80 \<and>
         c3 \<in> set [CHR 0x80, CHR 0x81, CHR 0x82, CHR 0x83, CHR 0x84, CHR 0x85, CHR 0x86,
                   CHR 0x87, CHR 0x88, CHR 0x89, CHR 0x8A, CHR 0xA8, CHR 0xA9, CHR 0xAF]) \<or>
      (c1 = CHR 0xE2 \<and> c2 = CHR 0x81 \<and> c3 = CHR 0x9F) \<or>
      (c1 = CHR 0xE3 \<and> c2 = CHR 0x80 \<and> c3 = CHR 0x80) \<or>
      (c1 = CHR 0xEF \<and> c2 = CHR 0xBB \<and> c3 = CHR 0xBF))"

text \<open>\<^verbatim>\<open>s.trimStart()\<close>: the white space characters at the front are dropped.\<close>

fun trimStart :: "string \<Rightarrow> string" where
  "trimStart [] = []"
| "trimStart [c1] = (if is_space c1 then [] else [c1])"
| "trimStart [c1, c2] =
     (if is_space c1 then trimStart [c2]
      else if is_space2 c1 c2 then []
      else [c1, c2])"
| "trimStart (c1 # c2 # c3 # s) =
     (if is_space c1 then trimStart (c2 # c3 # s)
      else if is_space2 c1 c2 then trimStart (c3 # s)
      else if is_space3 c1 c2 c3 then trimStart s
      else c1 # c2 # c3 # s)"

text \<open>
  \<^verbatim>\<open>s.trimEnd()\<close>: the string is cut at the first position from which on there is nothing
  but white space. No white space character starts with a continuation byte, so that
  position is the start of a character.
\<close>

fun trimEnd :: "string \<Rightarrow> string" where
  "trimEnd [] = []"
| "trimEnd (c # s) = (if trimStart (c # s) = [] then [] else c # trimEnd s)"

text \<open>\<^verbatim>\<open>s.trim()\<close>.\<close>

definition trim :: "string \<Rightarrow> string" where
  "trim s = trimEnd (trimStart s)"

text \<open>
  \<^verbatim>\<open>parseInt(s)\<close> without a radix: leading white space is skipped, a sign is read, a
  \<^verbatim>\<open>0x\<close> prefix selects radix 16, and the longest prefix of digits is the value. \<open>None\<close>
  is NaN (no digit was read).
\<close>

definition digit_value :: "char \<Rightarrow> nat option" where
  "digit_value c =
     (let n = (of_char c :: nat)
      in if 48 \<le> n \<and> n \<le> 57 then Some (n - 48)
         else if 97 \<le> n \<and> n \<le> 122 then Some (n - 87)
         else if 65 \<le> n \<and> n \<le> 90 then Some (n - 55)
         else None)"

definition radix_digit :: "nat \<Rightarrow> char \<Rightarrow> bool" where
  "radix_digit R c = (case digit_value c of Some d \<Rightarrow> d < R | None \<Rightarrow> False)"

definition digit_of :: "char \<Rightarrow> nat" where
  "digit_of c = (case digit_value c of Some d \<Rightarrow> d | None \<Rightarrow> 0)"

definition parseInt :: "string \<Rightarrow> int option" where
  "parseInt s =
     (let s1 = trimStart s;
          neg = (take 1 s1 = ''-'');
          s2 = (if take 1 s1 = ''-'' \<or> take 1 s1 = ''+'' then drop 1 s1 else s1);
          hex = (take 2 s2 = ''0x'' \<or> take 2 s2 = ''0X'');
          R = (if hex then 16 else 10);
          s3 = (if hex then drop 2 s2 else s2);
          Z = takeWhile (radix_digit R) s3;
          mathInt = int (foldl (\<lambda>acc c. acc * R + digit_of c) 0 Z)
      in if Z = [] then None else Some (if neg then - mathInt else mathInt))"

section \<open>The alert aggregator (alerts.js)\<close>

subsection \<open>Data\<close>

text \<open>
  The emoji of the message literals, as their UTF-8 bytes: the warning sign U+26A0 U+FE0F,
  the red circle U+1F534, the yellow circle U+1F7E1, the information sign U+2139 U+FE0F and
  the check mark U+2705.
\<close>

definition warning_sign :: string where
  "warning_sign = [CHR 0xE2, CHR 0x9A, CHR 0xA0, CHR 0xEF, CHR 0xB8, CHR 0x8F]"

definition red_circle :: string where
  "red_circle = [CHR 0xF0, CHR 0x9F, CHR 0x94, CHR 0xB4]"

definition yellow_circle :: string where
  "yellow_circle = [CHR 0xF0, CHR 0x9F, CHR 0x9F, CHR 0xA1]"

definition info_sign :: string where
  "info_sign = [CHR 0xE2, CHR 0x84, CHR 0xB9, CHR 0xEF, CHR 0xB8, CHR 0x8F]"

definition check_mark :: string where
  "check_mark = [CHR 0xE2, CHR 0x9C, CHR 0x85]"

text \<open>
  A timestamp is the instant a \<^verbatim>\<open>new Date()\<close> read, in milliseconds since the epoch;
  \<^verbatim>\<open>toISOString()\<close> renders it, one string per instant and in the same order.
\<close>

type_synonym instant = int

record alerts =
  timestamp :: instant
  critical :: "string list"
  warning :: "string list"
  info :: "string list"

record alertCount =
  critical_count :: nat
  warning_count :: nat
  info_count :: nat
  total :: nat

record healthScore =
  score :: int
  status :: string

record cacheInfo =
  cachedAt :: instant
  staleAfter :: int

text \<open>The result object spreads the alerts and adds the derived fields.\<close>

record report = alerts +
  alertCount :: alertCount
  systemHealthScore :: healthScore
  nextStepsToCheck :: "string list"
  actionableSummary :: string
  cacheInfo :: cacheInfo

record memUsage =
  totalGB :: reading
  usedGB :: reading
  freeGB :: reading
  usagePercent :: reading

record diskUsage =
  percentFree :: reading
  disk_warning :: bool
  disk_critical :: bool

record securityStatus =
  defenderDisabled :: bool
  firewallDisabled :: bool

text \<open>The outcome of an awaited \<^verbatim>\<open>execPromise\<close>: the promise rejects, or resolves.\<close>

datatype 'a outcome = Rejected | Resolved 'a

subsection \<open>Quick collectors with a failure path\<close>

text \<open>
  \<^verbatim>\<open>getDiskQuickCheck\<close>. The argument is the outcome of the PowerShell query; a resolved
  outcome carries the number \<^verbatim>\<open>parseFloat(stdout.trim())\<close> reads from the output (NaN when
  it reads none). The \<^verbatim>\<open>catch\<close> branch is the \<open>Rejected\<close> case.
\<close>

fun getDiskQuickCheck :: "reading outcome \<Rightarrow> diskUsage" where
  "getDiskQuickCheck (Resolved pf) =
     \<lparr>percentFree = (if isNaN pf then NA else pf),
      disk_warning = js_lt pf 20,
      disk_critical = js_lt pf 5\<rparr>"
| "getDiskQuickCheck Rejected =
     \<lparr>percentFree = NA, disk_warning = False, disk_critical = False\<rparr>"

text \<open>
  \<^verbatim>\<open>getSecurityQuickCheck\<close>. Each of the two queries has its own
  \<^verbatim>\<open>.catch(() => ({ stdout: "" }))\<close>, so a rejected query continues as an empty output.
  After that nothing in the \<^verbatim>\<open>try\<close> block can throw (\<^verbatim>\<open>Promise.all\<close> of two promises
  that cannot reject, \<^verbatim>\<open>trim\<close>, \<^verbatim>\<open>parseInt\<close>), so the outer \<^verbatim>\<open>catch\<close> with its
  \<^verbatim>\<open>{ defenderDisabled: false, firewallDisabled: false }\<close> is never entered.
\<close>

fun stdout_or_empty :: "string outcome \<Rightarrow> string" where
  "stdout_or_empty (Resolved s) = s"
| "stdout_or_empty Rejected = []"

definition getSecurityQuickCheck :: "string outcome \<Rightarrow> string outcome \<Rightarrow> securityStatus" where
  "getSecurityQuickCheck defenderExec firewallExec =
     (let defenderResult = stdout_or_empty defenderExec;
          firewallResult = stdout_or_empty firewallExec;
          defenderDisabled = (trim defenderResult = ''True'');
          firewallEnabledProfiles =
            parseInt (if trim firewallResult = [] then ''0'' else trim firewallResult)
      in \<lparr>defenderDisabled = defenderDisabled,
          firewallDisabled = (firewallEnabledProfiles = Some 0)\<rparr>)"

subsection \<open>Score, recommendations, summary\<close>

text \<open>
  \<^verbatim>\<open>calculateHealthScore\<close>. The penalties are products of array lengths, so the score is
  an integer and \<^verbatim>\<open>Math.round(score * 100) / 100\<close> returns it unchanged.
\<close>

definition calculateHealthScore :: "'a alerts_scheme \<Rightarrow> healthScore" where
  "calculateHealthScore a =
     (let criticalPenalty = int (length (critical a)) * 15;
          warningPenalty = int (length (warning a)) * 5;
          score = max 0 (100 - criticalPenalty - warningPenalty)
      in \<lparr>score = score,
          status = (if score \<ge> 80 then ''Good''
                    else if score \<ge> 60 then ''Fair''
                    else if score \<ge> 40 then ''Poor''
                    else ''Critical'')\<rparr>)"

text \<open>\<^verbatim>\<open>buildNextSteps\<close>: three pushes in a fixed order, then \<^verbatim>\<open>slice(0, 2)\<close>.\<close>

definition buildNextSteps ::
  "'a alerts_scheme \<Rightarrow> reading \<Rightarrow> memUsage \<Rightarrow> diskUsage \<Rightarrow> string list" where
  "buildNextSteps a cpuUsage memUsage diskUsage =
     (let nextSteps0 = [];
          nextSteps1 = (if js_gt cpuUsage 80 \<or> js_gt (usagePercent memUsage) 85
                        then nextSteps0 @ [''get_performance_stats''] else nextSteps0);
          nextSteps2 = (if js_lt (percentFree diskUsage) 20
                        then nextSteps1 @ [''get_system_health''] else nextSteps1);
          nextSteps3 = (if list_ex (\<lambda>m. str_includes m ''Defender'') (critical a)
                        then nextSteps2 @ [''get_system_health''] else nextSteps2)
      in take 2 nextSteps3)"

text \<open>
  \<^verbatim>\<open>generateSummary\<close>. \<^verbatim>\<open>x || y\<close> on strings yields \<open>y\<close> exactly when \<open>x\<close> is empty.
\<close>

definition or_else :: "string \<Rightarrow> string \<Rightarrow> string" where
  "or_else x y = (if x = [] then y else x)"

definition generateSummary :: "'a alerts_scheme \<Rightarrow> string list \<Rightarrow> string" where
  "generateSummary a nextSteps =
     (let healthScore = calculateHealthScore a
      in if length (critical a) > 0 then
           red_circle @ '' CRITICAL: '' @ join ''; '' (take 2 (critical a)) @ ''. Run: '' @
             or_else (join '', '' nextSteps) ''get_performance_stats''
         else if length (warning a) > 0 then
           yellow_circle @ '' WARNING: '' @ join ''; '' (take 2 (warning a)) @ ''. Run: '' @
             or_else (join '', '' nextSteps) ''investigate further''
         else if length (info a) > 0 then
           info_sign @ '' INFO: System health good overall. '' @
             or_else (hd (info a)) ''No immediate action needed.''
         else
           check_mark @ '' System healthy (score: '' @ show_int (score healthScore) @ ''/100)'')"

subsection \<open>The entrypoint\<close>

text \<open>
  What one call of \<^verbatim>\<open>getHealthAlerts\<close> reads from outside the module, in the order the
  code reads it: \<^verbatim>\<open>Date.now()\<close>, the \<^verbatim>\<open>new Date()\<close> of the alerts object, the values
  returned by \<^verbatim>\<open>getCPUQuick\<close> and \<^verbatim>\<open>getMemoryQuick\<close>, the outcomes of the three PowerShell
  queries, and the \<^verbatim>\<open>new Date()\<close> of \<^verbatim>\<open>cacheInfo\<close>.
\<close>

record env =
  now :: int
  date_alerts :: instant
  cpuQuick :: reading
  memoryQuick :: memUsage
  diskExec :: "reading outcome"
  defenderExec :: "string outcome"
  firewallExec :: "string outcome"
  date_cached :: instant

text \<open>The module-level variables \<^verbatim>\<open>alertCache\<close> and \<^verbatim>\<open>cacheTimestamp\<close>.\<close>

record alert_state =
  alertCache :: "report option"
  cacheTimestamp :: int

definition initial_state :: alert_state where
  "initial_state = \<lparr>alertCache = None, cacheTimestamp = 0\<rparr>"

definition CACHE_TTL :: int where
  "CACHE_TTL = 3000"

text \<open>The four classification blocks of the body, each pushing onto the alert lists.\<close>

definition cpuAlerts :: "reading \<Rightarrow> alerts \<Rightarrow> alerts" where
  "cpuAlerts cpuUsage a =
     (if js_gt cpuUsage 90 then
        a\<lparr>critical := critical a @
            [warning_sign @ '' CPU critically high: '' @ show_reading cpuUsage @ ''%'']\<rparr>
      else if js_gt cpuUsage 80 then
        a\<lparr>warning := warning a @ [''CPU elevated: '' @ show_reading cpuUsage @ ''%'']\<rparr>
      else a)"

definition memoryAlerts :: "memUsage \<Rightarrow> alerts \<Rightarrow> alerts" where
  "memoryAlerts memUsage a =
     (if js_gt (usagePercent memUsage) 90 then
        a\<lparr>critical := critical a @
            [warning_sign @ '' Memory critically high: '' @
             show_reading (usagePercent memUsage) @ ''%'']\<rparr>
      else if js_gt (usagePercent memUsage) 85 then
        a\<lparr>warning := warning a @
            [''Memory elevated: '' @ show_reading (usagePercent memUsage) @ ''%'']\<rparr>
      else a)"

definition diskAlerts :: "diskUsage \<Rightarrow> alerts \<Rightarrow> alerts" where
  "diskAlerts diskUsage a =
     (if js_lt (percentFree diskUsage) 5 then
        a\<lparr>critical := critical a @
            [warning_sign @ '' Disk space critical: '' @
             show_reading (percentFree diskUsage) @ ''% free'']\<rparr>
      else if js_lt (percentFree diskUsage) 20 then
        a\<lparr>warning := warning a @
            [''Low disk space: '' @ show_reading (percentFree diskUsage) @ ''% free'']\<rparr>
      else a)"

definition securityAlerts :: "securityStatus \<Rightarrow> alerts \<Rightarrow> alerts" where
  "securityAlerts securityStatus a =
     (let a1 = (if defenderDisabled securityStatus
                then a\<lparr>critical := critical a @
                       [warning_sign @ '' Windows Defender is disabled'']\<rparr>
                else a)
      in if firewallDisabled securityStatus
         then a1\<lparr>critical := critical a1 @
                 [warning_sign @ '' Windows Firewall is disabled'']\<rparr>
         else a1)"

text \<open>The alerts object after all four blocks.\<close>

definition collectAlerts :: "env \<Rightarrow> alerts" where
  "collectAlerts e =
     securityAlerts (getSecurityQuickCheck (defenderExec e) (firewallExec e))
       (diskAlerts (getDiskQuickCheck (diskExec e))
         (memoryAlerts (memoryQuick e)
           (cpuAlerts (cpuQuick e)
             \<lparr>timestamp = date_alerts e, critical = [], warning = [], info = []\<rparr>)))"

text \<open>The body of \<^verbatim>\<open>getHealthAlerts\<close> after the cache check: the \<^verbatim>\<open>result\<close> object.\<close>

definition freshReport :: "env \<Rightarrow> report" where
  "freshReport e =
     (let a = collectAlerts e;
          nextSteps = buildNextSteps a (cpuQuick e) (memoryQuick e)
                        (getDiskQuickCheck (diskExec e));
          summary = generateSummary a nextSteps
      in \<lparr>timestamp = timestamp a, critical = critical a, warning = warning a, info = info a,
          alertCount =
            \<lparr>critical_count = length (critical a),
             warning_count = length (warning a),
             info_count = length (info a),
             total = length (critical a) + length (warning a) + length (info a)\<rparr>,
          systemHealthScore = calculateHealthScore a,
          nextStepsToCheck = nextSteps,
          actionableSummary = summary,
          cacheInfo = \<lparr>cachedAt = date_cached e, staleAfter = CACHE_TTL\<rparr>\<rparr>)"

text \<open>
  \<^verbatim>\<open>getHealthAlerts\<close>: the cached report while it is fresh, otherwise a new report, which
  is stored with the \<^verbatim>\<open>now\<close> read at entry. The result is the report and the new state.
\<close>

definition getHealthAlerts :: "alert_state \<Rightarrow> env \<Rightarrow> report \<times> alert_state" where
  "getHealthAlerts s e =
     (case alertCache s of
        Some cached \<Rightarrow>
          if now e - cacheTimestamp s < CACHE_TTL then (cached, s)
          else (freshReport e, \<lparr>alertCache = Some (freshReport e), cacheTimestamp = now e\<rparr>)
      | None \<Rightarrow> (freshReport e, \<lparr>alertCache = Some (freshReport e), cacheTimestamp = now e\<rparr>))"

text \<open>The states the module can be in: the initial one, and those left by a call.\<close>

inductive reachable :: "alert_state \<Rightarrow> bool" where
  reachable_init: "reachable initial_state"
| reachable_call: "reachable s \<Longrightarrow> reachable (snd (getHealthAlerts s e))"

text \<open>
  The cached report carries a timestamp read no earlier than the \<^verbatim>\<open>Date.now()\<close> stored with
  it and less than one TTL after it. The two reads are three statements apart in the body.
\<close>

definition cache_timely :: "alert_state \<Rightarrow> bool" where
  "cache_timely s =
     (case alertCache s of
        None \<Rightarrow> True
      | Some cached \<Rightarrow>
          cacheTimestamp s \<le> timestamp cached \<and>
          timestamp cached < cacheTimestamp s + CACHE_TTL)"

section \<open>The thermal probe (thermal.js)\<close>

text \<open>
  \<^verbatim>\<open>typeof v === "number"\<close>: true of every number, NaN and the infinities included, false
  of the string \<^verbatim>\<open>"N/A"\<close>. \<^verbatim>\<open>v <= c\<close> completes the comparisons.
\<close>

fun is_number :: "reading \<Rightarrow> bool" where
  "is_number NA = False"
| "is_number _ = True"

fun js_le :: "reading \<Rightarrow> rat \<Rightarrow> bool" where
  "js_le (Num x) c = (x \<le> c)"
| "js_le PosInf c = False"
| "js_le NegInf c = True"
| "js_le NaN c = False"
| "js_le NA c = False"

text \<open>The degree sign U+00B0 in UTF-8.\<close>

definition degree_sign :: string where
  "degree_sign = [CHR 0xC2, CHR 0xB0]"

text \<open>\<^verbatim>\<open>checkThermalThrottling\<close> returns a boolean, or the string \<^verbatim>\<open>"Unknown"\<close>.\<close>

datatype throttle = Throttled bool | UnknownThrottle

record fanInfo =
  available :: bool
  fan_note :: string

record tempInfo =
  temperatureCelsius :: reading
  temp_unit :: string

record thermal_report =
  thermal_timestamp :: instant
  severity :: string
  cpu :: tempInfo
  gpu :: tempInfo
  thermalThrottling :: throttle
  fans :: fanInfo
  thermal_actionableSummary :: string
  recommendations :: "string list"
  thermal_nextStepsToCheck :: "string list"
  thermal_cacheInfo :: cacheInfo

text \<open>
  What one call of \<^verbatim>\<open>getThermalStatus\<close> reads: \<^verbatim>\<open>Date.now()\<close>, the values of its four
  collectors, and the two \<^verbatim>\<open>new Date()\<close> of the result object.
\<close>

record thermal_env =
  thermal_now :: int
  cpuTemp :: reading
  gpuTemp :: reading
  throttling :: throttle
  fanSpeeds :: fanInfo
  thermal_date_report :: instant
  thermal_date_cached :: instant

text \<open>The module-level \<^verbatim>\<open>thermalCache\<close> and \<^verbatim>\<open>cacheTimestamp\<close> of thermal.js.\<close>

record thermal_state =
  thermalCache :: "thermal_report option"
  thermal_cacheTimestamp :: int

definition thermal_initial_state :: thermal_state where
  "thermal_initial_state = \<lparr>thermalCache = None, thermal_cacheTimestamp = 0\<rparr>"

definition THERMAL_CACHE_TTL :: int where
  "THERMAL_CACHE_TTL = 10000"

text \<open>
  The \<^verbatim>\<open>if\<close> chain that sets \<^verbatim>\<open>severity\<close>, \<^verbatim>\<open>recommendations\<close> and
  \<^verbatim>\<open>nextStepsToCheck\<close>, as one triple.
\<close>

definition thermalSeverity ::
  "reading \<Rightarrow> reading \<Rightarrow> throttle \<Rightarrow> string \<times> string list \<times> string list" where
  "thermalSeverity cpuT gpuT thr =
     (if is_number cpuT \<and> js_gt cpuT 95 then
        (''critical'',
         [''CPU temperature critical - shut down unnecessary applications immediately'',
          ''Ensure proper ventilation and check for dust buildup''],
         [''get_performance_stats''])
      else if thr = Throttled True then
        (''critical'',
         [''Thermal throttling detected - performance is being reduced to prevent overheating'',
          ''Close resource-intensive applications and improve cooling''],
         [''get_performance_stats''])
      else if is_number cpuT \<and> js_gt cpuT 85 then
        (''warning'',
         [''CPU temperature elevated at '' @ show_reading cpuT @ degree_sign @
            ''C - monitor closely'',
          ''Consider improving airflow or reducing workload''],
         [])
      else if is_number gpuT \<and> js_gt gpuT 85 then
        (''warning'',
         [''GPU temperature elevated at '' @ show_reading gpuT @ degree_sign @ ''C'',
          ''Close GPU-intensive applications if temperature persists''],
         [])
      else if is_number cpuT \<and> js_le cpuT 85 then
        (''info'', [''Thermal status normal''], [])
      else
        (''info'',
         [''Temperature monitoring unavailable - requires WMI access or hardware sensors'',
          ''Run PowerShell as Administrator for temperature data''],
         []))"

definition thermalSummary :: "reading \<Rightarrow> reading \<Rightarrow> throttle \<Rightarrow> string" where
  "thermalSummary cpuT gpuT thr =
     (if is_number cpuT then
        ''CPU: '' @ show_reading cpuT @ degree_sign @ ''C'' @
        (if is_number gpuT then '', GPU: '' @ show_reading gpuT @ degree_sign @ ''C'' else []) @
        (if thr = Throttled True then '' '' @ warning_sign @ '' THROTTLING'' else [])
      else
        ''Temperature data unavailable (requires elevated privileges or hardware sensors)'')"

definition thermalResult :: "thermal_env \<Rightarrow> thermal_report" where
  "thermalResult e =
     (case thermalSeverity (cpuTemp e) (gpuTemp e) (throttling e) of
        (sev, recs, nextSteps) \<Rightarrow>
          \<lparr>thermal_timestamp = thermal_date_report e,
           severity = sev,
           cpu = \<lparr>temperatureCelsius = cpuTemp e,
                  temp_unit = (if is_number (cpuTemp e) then degree_sign @ ''C'' else ''N/A'')\<rparr>,
           gpu = \<lparr>temperatureCelsius = gpuTemp e,
                  temp_unit = (if is_number (gpuTemp e) then degree_sign @ ''C'' else ''N/A'')\<rparr>,
           thermalThrottling = throttling e,
           fans = fanSpeeds e,
           thermal_actionableSummary = thermalSummary (cpuTemp e) (gpuTemp e) (throttling e),
           recommendations = recs,
           thermal_nextStepsToCheck = nextSteps,
           thermal_cacheInfo =
             \<lparr>cachedAt = thermal_date_cached e, staleAfter = THERMAL_CACHE_TTL\<rparr>\<rparr>)"

definition getThermalStatus ::
  "thermal_state \<Rightarrow> thermal_env \<Rightarrow> thermal_report \<times> thermal_state" where
  "getThermalStatus s e =
     (case thermalCache s of
        Some cached \<Rightarrow>
          if thermal_now e - thermal_cacheTimestamp s < THERMAL_CACHE_TTL then (cached, s)
          else (thermalResult e,
                \<lparr>thermalCache = Some (thermalResult e), thermal_cacheTimestamp = thermal_now e\<rparr>)
      | None \<Rightarrow>
          (thermalResult e,
           \<lparr>thermalCache = Some (thermalResult e), thermal_cacheTimestamp = thermal_now e\<rparr>))"

section \<open>The network probe (network.js)\<close>

text \<open>The cross mark U+274C in UTF-8.\<close>

definition cross_mark :: string where
  "cross_mark = [CHR 0xE2, CHR 0x9D, CHR 0x8C]"

text \<open>
  The connectivity result. \<open>conn_error\<close> is the optional \<^verbatim>\<open>error\<close> field; \<open>fromCache\<close> is
  true when the field \<^verbatim>\<open>fromCache: true\<close> is present and false when it is absent.
\<close>

record connectivity =
  connected :: bool
  checkedServer :: string
  conn_error :: "string option"
  fromCache :: bool

record interface =
  iface_name :: string
  ipv4 :: string
  ipv6 :: string
  mac :: string

text \<open>The value of \<^verbatim>\<open>getConnectedDevices\<close>: counts or \<^verbatim>\<open>"N/A"\<close>, and optional texts.\<close>

record devices =
  usbDevices :: reading
  bluetoothDevices :: reading
  totalConnectedDevices :: reading
  dev_method :: "string option"
  dev_note :: "string option"
  dev_error :: "string option"

record network_report =
  net_timestamp :: instant
  net_severity :: string
  interfaces :: "interface list"
  internetConnectivity :: connectivity
  connectedDevices :: devices
  net_actionableSummary :: string
  net_recommendations :: "string list"
  net_nextStepsToCheck :: "string list"

text \<open>
  What one call of \<^verbatim>\<open>getNetworkStatus\<close> reads: the interface list, the \<^verbatim>\<open>Date.now()\<close>
  and the outcome of the ping inside \<^verbatim>\<open>checkInternetConnectivity\<close>, the device counts, and
  the \<^verbatim>\<open>new Date()\<close> of the result object.
\<close>

record network_env =
  net_interfaces :: "interface list"
  net_now :: int
  pingExec :: "string outcome"
  net_devices :: devices
  net_date_report :: instant

text \<open>The module-level \<^verbatim>\<open>connectivityCache\<close> and \<^verbatim>\<open>connectivityTimestamp\<close>.\<close>

record network_state =
  connectivityCache :: "connectivity option"
  connectivityTimestamp :: int

definition network_initial_state :: network_state where
  "network_initial_state = \<lparr>connectivityCache = None, connectivityTimestamp = 0\<rparr>"

definition CONNECTIVITY_CACHE_TTL :: int where
  "CONNECTIVITY_CACHE_TTL = 30000"

text \<open>The connectivity result of a ping that was run: the \<^verbatim>\<open>try\<close> and the \<^verbatim>\<open>catch\<close> branch.\<close>

fun pingResult :: "string outcome \<Rightarrow> connectivity" where
  "pingResult (Resolved stdout) =
     \<lparr>connected = (trim stdout = ''True''), checkedServer = ''8.8.8.8 (Google DNS)'',
      conn_error = None, fromCache = False\<rparr>"
| "pingResult Rejected =
     \<lparr>connected = False, checkedServer = ''8.8.8.8 (Google DNS)'',
      conn_error = Some ''Unable to verify connectivity'', fromCache = False\<rparr>"

definition checkInternetConnectivity ::
  "network_state \<Rightarrow> int \<Rightarrow> string outcome \<Rightarrow> connectivity \<times> network_state" where
  "checkInternetConnectivity s now_ms ping =
     (case connectivityCache s of
        Some cached \<Rightarrow>
          if now_ms - connectivityTimestamp s < CONNECTIVITY_CACHE_TTL
          then (cached\<lparr>fromCache := True\<rparr>, s)
          else (pingResult ping,
                \<lparr>connectivityCache = Some (pingResult ping), connectivityTimestamp = now_ms\<rparr>)
      | None \<Rightarrow>
          (pingResult ping,
           \<lparr>connectivityCache = Some (pingResult ping), connectivityTimestamp = now_ms\<rparr>))"

definition networkSeverity :: "connectivity \<Rightarrow> devices \<Rightarrow> string \<times> string list" where
  "networkSeverity conn devs =
     (if connected conn = False then
        (''critical'',
         [''No internet connectivity detected'',
          ''Check network cables, Wi-Fi connection, or router status'',
          ''Try: ipconfig /release && ipconfig /renew (run as Administrator)''])
      else if usbDevices devs = NA \<or> bluetoothDevices devs = NA then
        (''warning'',
         [''Device enumeration incomplete - requires elevated permissions'',
          ''Run PowerShell as Administrator for full device visibility''])
      else
        (''info'',
         [''Network status normal''] @
         (if js_gt (usbDevices devs) 0 \<or> js_gt (bluetoothDevices devs) 0
          then [''Connected devices: '' @ show_reading (totalConnectedDevices devs) @ '' ('' @
                show_reading (usbDevices devs) @ '' USB, '' @
                show_reading (bluetoothDevices devs) @ '' Bluetooth)'']
          else [])))"

definition networkSummary :: "interface list \<Rightarrow> connectivity \<Rightarrow> devices \<Rightarrow> string" where
  "networkSummary ifaces conn devs =
     (let activeInterfaces = filter (\<lambda>i. ipv4 i \<noteq> ''N/A'' \<or> ipv6 i \<noteq> ''N/A'') ifaces
      in if connected conn then
           check_mark @ '' Internet connected ('' @ digits (length activeInterfaces) @
           '' active interface'' @ (if length activeInterfaces \<noteq> 1 then ''s'' else []) @ '')'' @
           (if totalConnectedDevices devs \<noteq> NA
            then ''. '' @ show_reading (totalConnectedDevices devs) @ '' device'' @
                 (if totalConnectedDevices devs \<noteq> Num 1 then ''s'' else [])
            else [])
         else
           cross_mark @ '' No internet connectivity - '' @ digits (length activeInterfaces) @
           '' interface'' @ (if length activeInterfaces \<noteq> 1 then ''s'' else []) @
           '' detected but unreachable'')"

definition getNetworkStatus ::
  "network_state \<Rightarrow> network_env \<Rightarrow> network_report \<times> network_state" where
  "getNetworkStatus s e =
     (case checkInternetConnectivity s (net_now e) (pingExec e) of
        (conn, s') \<Rightarrow>
          (case networkSeverity conn (net_devices e) of
             (sev, recs) \<Rightarrow>
               (\<lparr>net_timestamp = net_date_report e,
                 net_severity = sev,
                 interfaces = net_interfaces e,
                 internetConnectivity = conn,
                 connectedDevices = net_devices e,
                 net_actionableSummary = networkSummary (net_interfaces e) conn (net_devices e),
                 net_recommendations = recs,
                 net_nextStepsToCheck = []\<rparr>, s')))"

section \<open>Concrete inputs\<close>

text \<open>
  A healthy machine: CPU 20 %, memory 30 %, 60 % of the disk free, Defender's real-time
  monitoring not disabled (the query prints \<^verbatim>\<open>False\<close>), three firewall profiles enabled.
\<close>

definition env_nominal :: env where
  "env_nominal =
     \<lparr>now = 1000, date_alerts = 1000, cpuQuick = Num 20,
      memoryQuick = \<lparr>totalGB = Num 16, usedGB = Num (48 / 10), freeGB = Num (112 / 10),
                     usagePercent = Num 30\<rparr>,
      diskExec = Resolved (Num 60), defenderExec = Resolved ''False'',
      firewallExec = Resolved ''3'', date_cached = 1005\<rparr>"

text \<open>CPU 95 %, memory 95 %, 2 % of the disk free, Defender and firewall both off.\<close>

definition env_all_critical :: env where
  "env_all_critical =
     env_nominal\<lparr>cpuQuick := Num 95,
       memoryQuick := (memoryQuick env_nominal)\<lparr>usagePercent := Num 95\<rparr>,
       diskExec := Resolved (Num 2), defenderExec := Resolved ''True'',
       firewallExec := Resolved ''0''\<rparr>"

text \<open>Little disk space left (3 % free) and Defender off; CPU and memory quiet.\<close>

definition env_disk_defender :: env where
  "env_disk_defender =
     env_nominal\<lparr>diskExec := Resolved (Num 3), defenderExec := Resolved ''True''\<rparr>"

text \<open>The firewall query answers that no profile is enabled; everything else is nominal.\<close>

definition env_firewall_off :: env where
  "env_firewall_off = env_nominal\<lparr>firewallExec := Resolved ''0''\<rparr>"

text \<open>CPU and memory exactly at 90 %, and exactly at 80 % and 85 %.\<close>

definition env_at_90 :: env where
  "env_at_90 =
     env_nominal\<lparr>cpuQuick := Num 90,
       memoryQuick := (memoryQuick env_nominal)\<lparr>usagePercent := Num 90\<rparr>\<rparr>"

definition env_at_80_85 :: env where
  "env_at_80_85 =
     env_nominal\<lparr>cpuQuick := Num 80,
       memoryQuick := (memoryQuick env_nominal)\<lparr>usagePercent := Num 85\<rparr>\<rparr>"

text \<open>The firewall query is rejected (PowerShell or the cmdlet is missing).\<close>

definition env_firewall_query_fails :: env where
  "env_firewall_query_fails = env_nominal\<lparr>firewallExec := Rejected\<rparr>"

text \<open>
  Two later calls of the aggregator: 2.999 s after the first one, and exactly 3 s after it.
\<close>

definition env_within_ttl :: env where
  "env_within_ttl = env_all_critical\<lparr>now := 3999, date_alerts := 3999, date_cached := 4004\<rparr>"

definition env_after_ttl :: env where
  "env_after_ttl = env_all_critical\<lparr>now := 4000, date_alerts := 4000, date_cached := 4005\<rparr>"

text \<open>A cool machine, and a connected one with three USB devices and one Bluetooth device.\<close>

definition thermal_env_cool :: thermal_env where
  "thermal_env_cool =
     \<lparr>thermal_now = 1000, cpuTemp = Num 45, gpuTemp = NA, throttling = Throttled False,
      fanSpeeds = \<lparr>available = False,
                   fan_note = ''Fan speed data not available through standard Windows APIs''\<rparr>,
      thermal_date_report = 1150, thermal_date_cached = 1150\<rparr>"

text \<open>A hot machine, 9.999 s after the cool one was read, and exactly 10 s after it.\<close>

definition thermal_env_hot :: thermal_env where
  "thermal_env_hot =
     thermal_env_cool\<lparr>thermal_now := 10999, cpuTemp := Num 97, thermal_date_report := 11150,
       thermal_date_cached := 11150\<rparr>"

definition thermal_env_expired :: thermal_env where
  "thermal_env_expired =
     thermal_env_hot\<lparr>thermal_now := 11000, thermal_date_report := 11151,
       thermal_date_cached := 11151\<rparr>"

definition network_env_online :: network_env where
  "network_env_online =
     \<lparr>net_interfaces =
        [\<lparr>iface_name = ''Wi-Fi'', ipv4 = ''192.168.1.20'', ipv6 = ''N/A'',
          mac = ''00:11:22:33:44:55''\<rparr>],
      net_now = 1000, pingExec = Resolved ''True'',
      net_devices = \<lparr>usbDevices = Num 3, bluetoothDevices = Num 1,
                      totalConnectedDevices = Num 4, dev_method = Some ''Get-PnpDevice'',
                      dev_note = None, dev_error = None\<rparr>,
      net_date_report = 1800\<rparr>"

definition network_env_again :: network_env where
  "network_env_again = network_env_online\<lparr>net_now := 2000, net_date_report := 2001\<rparr>"

text \<open>
  The cable is pulled (the ping is rejected); the probe is called 29.999 s after the first
  call, and exactly 30 s after it.
\<close>

definition network_env_within :: network_env where
  "network_env_within =
     network_env_online\<lparr>net_now := 30999, pingExec := Rejected, net_date_report := 31800\<rparr>"

definition network_env_expired :: network_env where
  "network_env_expired =
     network_env_online\<lparr>net_now := 31000, pingExec := Rejected, net_date_report := 31801\<rparr>"

section \<open>Properties of the alert aggregator\<close>

subsection \<open>Every returned report was computed by the body\<close>

lemma info_cpuAlerts [simp]: "info (cpuAlerts c a) = info a"
  by (simp add: cpuAlerts_def)

lemma info_memoryAlerts [simp]: "info (memoryAlerts m a) = info a"
  by (simp add: memoryAlerts_def)

lemma info_diskAlerts [simp]: "info (diskAlerts d a) = info a"
  by (simp add: diskAlerts_def)

lemma info_securityAlerts [simp]: "info (securityAlerts x a) = info a"
  by (simp add: securityAlerts_def Let_def)

lemma info_collectAlerts: "info (collectAlerts e) = []"
  by (simp add: collectAlerts_def)

lemma timestamp_collectAlerts: "timestamp (collectAlerts e) = date_alerts e"
  by (simp add: collectAlerts_def cpuAlerts_def memoryAlerts_def diskAlerts_def
      securityAlerts_def Let_def)

lemma fresh_lists:
  "critical (freshReport e) = critical (collectAlerts e)"
  "warning (freshReport e) = warning (collectAlerts e)"
  "info (freshReport e) = []"
  "timestamp (freshReport e) = date_alerts e"
  by (simp_all add: freshReport_def Let_def info_collectAlerts timestamp_collectAlerts)

lemma cached_is_fresh:
  "reachable s \<Longrightarrow> alertCache s = Some r \<Longrightarrow> \<exists>e. r = freshReport e"
proof (induction arbitrary: r rule: reachable.induct)
  case reachable_init
  then show ?case by (simp add: initial_state_def)
next
  case (reachable_call s e)
  then show ?case
    by (auto simp: getHealthAlerts_def split: option.splits if_splits)
qed

lemma returned_is_fresh:
  assumes "reachable s"
  shows "\<exists>e'. fst (getHealthAlerts s e) = freshReport e'"
proof (cases "alertCache s")
  case None
  then show ?thesis by (auto simp: getHealthAlerts_def)
next
  case (Some r)
  with assms obtain e0 where "r = freshReport e0" using cached_is_fresh by blast
  with Some show ?thesis by (auto simp: getHealthAlerts_def)
qed

lemma first_call_fresh: "fst (getHealthAlerts initial_state e) = freshReport e"
  by (simp add: getHealthAlerts_def initial_state_def)

subsection \<open>Evaluating the collectors on the concrete inputs\<close>

lemmas block_defs = collectAlerts_def cpuAlerts_def memoryAlerts_def diskAlerts_def
  securityAlerts_def

lemmas env_defs = env_nominal_def env_all_critical_def env_disk_defender_def env_firewall_off_def
  env_at_90_def env_at_80_85_def env_firewall_query_fails_def

lemmas ws_defs = is_space_def is_space2_def is_space3_def

lemma parseInt_0: "parseInt ''0'' = Some 0"
  by (simp add: parseInt_def ws_defs radix_digit_def digit_value_def digit_of_def)

lemma parseInt_3: "parseInt ''3'' = Some 3"
  by (simp add: parseInt_def ws_defs radix_digit_def digit_value_def digit_of_def)

lemma security_nominal:
  "getSecurityQuickCheck (Resolved ''False'') (Resolved ''3'') =
     \<lparr>defenderDisabled = False, firewallDisabled = False\<rparr>"
  by (simp add: getSecurityQuickCheck_def trim_def ws_defs parseInt_3)

lemma security_both_off:
  "getSecurityQuickCheck (Resolved ''True'') (Resolved ''0'') =
     \<lparr>defenderDisabled = True, firewallDisabled = True\<rparr>"
  by (simp add: getSecurityQuickCheck_def trim_def ws_defs parseInt_0)

lemma collect_all_critical:
  "length (critical (collectAlerts env_all_critical)) = 5"
  "length (warning (collectAlerts env_all_critical)) = 0"
  by (simp_all add: env_all_critical_def env_nominal_def collectAlerts_def cpuAlerts_def
      memoryAlerts_def diskAlerts_def securityAlerts_def security_both_off)

subsection \<open>Health score\<close>

lemma score_fresh:
  "score (systemHealthScore (freshReport e)) =
     max 0 (100 - 15 * int (length (critical (freshReport e)))
                - 5 * int (length (warning (freshReport e))))"
  by (simp add: fresh_lists) (simp add: freshReport_def Let_def calculateHealthScore_def)

lemma status_fresh:
  "status (systemHealthScore (freshReport e)) =
     (if score (systemHealthScore (freshReport e)) \<ge> 80 then ''Good''
      else if score (systemHealthScore (freshReport e)) \<ge> 60 then ''Fair''
      else if score (systemHealthScore (freshReport e)) \<ge> 40 then ''Poor''
      else ''Critical'')"
  by (simp add: freshReport_def Let_def calculateHealthScore_def)

lemma score_counts_only:
  "length (critical a) = length (critical b) \<Longrightarrow> length (warning a) = length (warning b) \<Longrightarrow>
   calculateHealthScore a = calculateHealthScore b"
  by (simp add: calculateHealthScore_def)

text \<open>
  Claim C1. In every report that \<^verbatim>\<open>get_health_alerts\<close> returns, from the cache or freshly
  computed, the score is \<open>max 0 (100 - 15 * |critical| - 5 * |warning|)\<close>, the status is
  Good from 80, Fair from 60, Poor from 40 and Critical below, and two alert objects with
  the same numbers of critical and of warning alerts get the same score and status,
  whatever their messages and order.
\<close>

theorem health_score_formula:
  assumes "reachable s"
  shows "score (systemHealthScore (fst (getHealthAlerts s e))) =
           max 0 (100 - 15 * int (length (critical (fst (getHealthAlerts s e))))
                      - 5 * int (length (warning (fst (getHealthAlerts s e)))))
         \<and> status (systemHealthScore (fst (getHealthAlerts s e))) =
             (if score (systemHealthScore (fst (getHealthAlerts s e))) \<ge> 80 then ''Good''
              else if score (systemHealthScore (fst (getHealthAlerts s e))) \<ge> 60 then ''Fair''
              else if score (systemHealthScore (fst (getHealthAlerts s e))) \<ge> 40 then ''Poor''
              else ''Critical'')
         \<and> (\<forall>a b :: alerts.
               length (critical a) = length (critical b) \<and>
               length (warning a) = length (warning b) \<longrightarrow>
               calculateHealthScore a = calculateHealthScore b)"
proof -
  obtain e' where r: "fst (getHealthAlerts s e) = freshReport e'"
    using returned_is_fresh [OF assms] by blast
  show ?thesis
    unfolding r using score_fresh [of e'] status_fresh [of e'] score_counts_only by blast
qed

theorem health_score_formula_witness:
  "reachable initial_state \<and>
   score (systemHealthScore (fst (getHealthAlerts initial_state env_all_critical))) = 25 \<and>
   status (systemHealthScore (fst (getHealthAlerts initial_state env_all_critical))) =
     ''Critical''"
proof -
  note h = health_score_formula [OF reachable_init, of env_all_critical]
  have sc: "score (systemHealthScore (fst (getHealthAlerts initial_state env_all_critical))) = 25"
    using h [THEN conjunct1] by (simp add: first_call_fresh fresh_lists collect_all_critical)
  have "status (systemHealthScore (fst (getHealthAlerts initial_state env_all_critical))) =
          ''Critical''"
    using h [THEN conjunct2, THEN conjunct1] by (simp add: sc)
  with sc show ?thesis by (simp add: reachable_init)
qed

subsection \<open>Alert counts and the info list\<close>

lemma count_fresh:
  "alertCount (freshReport e) =
     \<lparr>critical_count = length (critical (freshReport e)),
      warning_count = length (warning (freshReport e)),
      info_count = length (info (freshReport e)),
      total = length (critical (freshReport e)) + length (warning (freshReport e)) +
              length (info (freshReport e))\<rparr>"
  by (simp add: fresh_lists) (simp add: freshReport_def Let_def info_collectAlerts)

text \<open>
  Claim C9. In every report that \<^verbatim>\<open>get_health_alerts\<close> returns, the three per-severity
  counts of \<^verbatim>\<open>alertCount\<close> are the lengths of the critical, warning and info lists, and
  \<^verbatim>\<open>total\<close> is their sum.
\<close>

theorem alert_counts_consistent:
  assumes "reachable s"
  shows "critical_count (alertCount (fst (getHealthAlerts s e))) =
           length (critical (fst (getHealthAlerts s e)))
         \<and> warning_count (alertCount (fst (getHealthAlerts s e))) =
             length (warning (fst (getHealthAlerts s e)))
         \<and> info_count (alertCount (fst (getHealthAlerts s e))) =
             length (info (fst (getHealthAlerts s e)))
         \<and> total (alertCount (fst (getHealthAlerts s e))) =
             length (critical (fst (getHealthAlerts s e))) +
             length (warning (fst (getHealthAlerts s e))) +
             length (info (fst (getHealthAlerts s e)))"
proof -
  obtain e' where r: "fst (getHealthAlerts s e) = freshReport e'"
    using returned_is_fresh [OF assms] by blast
  show ?thesis unfolding r by (simp add: count_fresh)
qed

theorem alert_counts_consistent_witness:
  "reachable initial_state \<and>
   critical_count (alertCount (fst (getHealthAlerts initial_state env_all_critical))) = 5 \<and>
   total (alertCount (fst (getHealthAlerts initial_state env_all_critical))) = 5"
  using alert_counts_consistent [OF reachable_init, of env_all_critical]
  by (simp add: first_call_fresh fresh_lists collect_all_critical reachable_init)

lemma score_ignores_info:
  "calculateHealthScore \<lparr>timestamp = t, critical = cs, warning = ws, info = xs\<rparr> =
   calculateHealthScore \<lparr>timestamp = t', critical = cs, warning = ws, info = []\<rparr>"
  by (simp add: calculateHealthScore_def)

lemma healthScore_fresh:
  "systemHealthScore (freshReport e) =
     calculateHealthScore \<lparr>timestamp = t, critical = critical (freshReport e),
       warning = warning (freshReport e), info = xs\<rparr>"
  by (simp add: fresh_lists) (simp add: freshReport_def Let_def calculateHealthScore_def)

text \<open>
  Claim C10. In every report that \<^verbatim>\<open>get_health_alerts\<close> returns the info list is empty
  (none of the four classification blocks touches it), so the info count is 0, the total
  counts critical and warning alerts only, and the health score is the one computed from
  the critical and warning lists alone, whatever is put in place of the info list.
\<close>

theorem no_info_alerts:
  assumes "reachable s"
  shows "info (fst (getHealthAlerts s e)) = []
         \<and> info_count (alertCount (fst (getHealthAlerts s e))) = 0
         \<and> total (alertCount (fst (getHealthAlerts s e))) =
             length (critical (fst (getHealthAlerts s e))) +
             length (warning (fst (getHealthAlerts s e)))
         \<and> systemHealthScore (fst (getHealthAlerts s e)) =
             calculateHealthScore
               \<lparr>timestamp = t, critical = critical (fst (getHealthAlerts s e)),
                warning = warning (fst (getHealthAlerts s e)), info = xs\<rparr>"
proof -
  obtain e' where r: "fst (getHealthAlerts s e) = freshReport e'"
    using returned_is_fresh [OF assms] by blast
  show ?thesis unfolding r
    using healthScore_fresh [of e' t xs] by (simp add: count_fresh fresh_lists)
qed

theorem no_info_alerts_witness:
  "reachable (snd (getHealthAlerts initial_state env_all_critical)) \<and>
   info (fst (getHealthAlerts (snd (getHealthAlerts initial_state env_all_critical))
              env_nominal)) = [] \<and>
   info_count (alertCount (fst (getHealthAlerts
       (snd (getHealthAlerts initial_state env_all_critical)) env_nominal))) = 0"
proof -
  have re: "reachable (snd (getHealthAlerts initial_state env_all_critical))"
    by (rule reachable_call [OF reachable_init])
  show ?thesis
    using no_info_alerts [OF re, of env_nominal] re by simp
qed

subsection \<open>Recommendations\<close>

lemma nextSteps_fresh:
  "nextStepsToCheck (freshReport e) =
     buildNextSteps (collectAlerts e) (cpuQuick e) (memoryQuick e)
       (getDiskQuickCheck (diskExec e))"
  by (simp add: freshReport_def Let_def)

lemma buildNextSteps_cases:
  "buildNextSteps a c m d \<in>
     {[], [''get_performance_stats''], [''get_system_health''],
      [''get_performance_stats'', ''get_system_health''],
      [''get_system_health'', ''get_system_health'']}"
  by (simp add: buildNextSteps_def Let_def)

lemma buildNextSteps_length: "length (buildNextSteps a c m d) \<le> 2"
  by (simp add: buildNextSteps_def Let_def)

lemma buildNextSteps_distinct:
  "distinct (buildNextSteps a c m d) \<longleftrightarrow>
     buildNextSteps a c m d \<noteq> [''get_system_health'', ''get_system_health'']"
  using buildNextSteps_cases [of a c m d] by auto

lemma security_defender_only:
  "getSecurityQuickCheck (Resolved ''True'') (Resolved ''3'') =
     \<lparr>defenderDisabled = True, firewallDisabled = False\<rparr>"
  by (simp add: getSecurityQuickCheck_def trim_def ws_defs parseInt_3)

lemma security_firewall_only:
  "getSecurityQuickCheck (Resolved ''False'') (Resolved ''0'') =
     \<lparr>defenderDisabled = False, firewallDisabled = True\<rparr>"
  by (simp add: getSecurityQuickCheck_def trim_def ws_defs parseInt_0)

lemma nextSteps_disk_defender:
  "nextStepsToCheck (freshReport env_disk_defender) =
     [''get_system_health'', ''get_system_health'']"
  by (simp add: nextSteps_fresh buildNextSteps_def env_defs block_defs security_defender_only
      warning_sign_def)

text \<open>
  Claim C2 as stated fails: with a quiet CPU and memory, 3 % of the disk free and Defender
  off, the disk rule and the Defender rule both push \<^verbatim>\<open>get_system_health\<close>, and the list
  holds it twice.
\<close>

theorem next_steps_duplicate_counterexample:
  "nextStepsToCheck (fst (getHealthAlerts initial_state env_disk_defender)) =
     [''get_system_health'', ''get_system_health'']
   \<and> \<not> distinct (nextStepsToCheck (fst (getHealthAlerts initial_state env_disk_defender)))"
  by (simp add: first_call_fresh nextSteps_disk_defender)

lemma nextSteps_performance:
  "''get_performance_stats'' \<in> set (buildNextSteps a c m d) \<longleftrightarrow>
     js_gt c 80 \<or> js_gt (usagePercent m) 85"
  by (simp add: buildNextSteps_def Let_def)

lemma nextSteps_performance_first:
  "js_gt c 80 \<or> js_gt (usagePercent m) 85 \<Longrightarrow>
   take 1 (buildNextSteps a c m d) = [''get_performance_stats'']"
  by (simp add: buildNextSteps_def Let_def)

lemma nextSteps_disk:
  "js_lt (percentFree d) 20 \<Longrightarrow> ''get_system_health'' \<in> set (buildNextSteps a c m d)"
  by (simp add: buildNextSteps_def Let_def)

lemma nextSteps_Defender:
  "list_ex (\<lambda>m. str_includes m ''Defender'') (critical a) \<Longrightarrow>
   ''get_system_health'' \<in> set (buildNextSteps a c m d)"
  by (simp add: buildNextSteps_def Let_def)

lemma nextSteps_doubled_only:
  "buildNextSteps a c m d = [''get_system_health'', ''get_system_health''] \<Longrightarrow>
   \<not> (js_gt c 80 \<or> js_gt (usagePercent m) 85) \<and> js_lt (percentFree d) 20"
  by (simp add: buildNextSteps_def Let_def split: if_splits)

lemma nextSteps_doubled:
  "\<not> (js_gt c 80 \<or> js_gt (usagePercent m) 85) \<Longrightarrow> js_lt (percentFree d) 20 \<Longrightarrow>
   list_ex (\<lambda>m. str_includes m ''Defender'') (critical a) \<Longrightarrow>
   buildNextSteps a c m d = [''get_system_health'', ''get_system_health'']"
  by (simp add: buildNextSteps_def Let_def)

text \<open>
  Claim C2, amended. Every returned recommendation list has at most two entries, is one
  of \<open>[]\<close>, \<open>[performance]\<close>, \<open>[system]\<close>, \<open>[performance, system]\<close> and \<open>[system, system]\<close>,
  and so is free of duplicates unless it is \<^verbatim>\<open>get_system_health\<close> twice. In a freshly
  computed list the performance probe is present exactly when CPU > 80 or memory > 85, and
  is then the first entry; the system probe is present whenever less than 20 % of the disk
  is free, and whenever a critical message mentions Defender. Nothing is deduplicated: the
  list is the system probe twice only when the performance rule is silent and the disk
  rule fires, and it is so whenever, in addition, a critical message mentions Defender.
\<close>

theorem next_steps_shape:
  assumes "reachable s"
  shows "length (nextStepsToCheck (fst (getHealthAlerts s e))) \<le> 2
         \<and> nextStepsToCheck (fst (getHealthAlerts s e)) \<in>
             {[], [''get_performance_stats''], [''get_system_health''],
              [''get_performance_stats'', ''get_system_health''],
              [''get_system_health'', ''get_system_health'']}
         \<and> (distinct (nextStepsToCheck (fst (getHealthAlerts s e))) \<longleftrightarrow>
              nextStepsToCheck (fst (getHealthAlerts s e)) \<noteq>
                [''get_system_health'', ''get_system_health''])
         \<and> (''get_performance_stats'' \<in> set (nextStepsToCheck (freshReport e)) \<longleftrightarrow>
              js_gt (cpuQuick e) 80 \<or> js_gt (usagePercent (memoryQuick e)) 85)
         \<and> (js_gt (cpuQuick e) 80 \<or> js_gt (usagePercent (memoryQuick e)) 85 \<longrightarrow>
              take 1 (nextStepsToCheck (freshReport e)) = [''get_performance_stats''])
         \<and> (js_lt (percentFree (getDiskQuickCheck (diskExec e))) 20 \<longrightarrow>
              ''get_system_health'' \<in> set (nextStepsToCheck (freshReport e)))
         \<and> (list_ex (\<lambda>m. str_includes m ''Defender'') (critical (freshReport e)) \<longrightarrow>
              ''get_system_health'' \<in> set (nextStepsToCheck (freshReport e)))
         \<and> (nextStepsToCheck (freshReport e) = [''get_system_health'', ''get_system_health'']
              \<longrightarrow>
              \<not> (js_gt (cpuQuick e) 80 \<or> js_gt (usagePercent (memoryQuick e)) 85) \<and>
              js_lt (percentFree (getDiskQuickCheck (diskExec e))) 20)
         \<and> (\<not> (js_gt (cpuQuick e) 80 \<or> js_gt (usagePercent (memoryQuick e)) 85) \<and>
              js_lt (percentFree (getDiskQuickCheck (diskExec e))) 20 \<and>
              list_ex (\<lambda>m. str_includes m ''Defender'') (critical (freshReport e)) \<longrightarrow>
              nextStepsToCheck (freshReport e) =
                [''get_system_health'', ''get_system_health''])"
proof -
  obtain e' where r: "fst (getHealthAlerts s e) = freshReport e'"
    using returned_is_fresh [OF assms] by blast
  have 1: "length (nextStepsToCheck (fst (getHealthAlerts s e))) \<le> 2"
    unfolding r by (simp add: nextSteps_fresh buildNextSteps_length)
  have 2: "nextStepsToCheck (fst (getHealthAlerts s e)) \<in>
             {[], [''get_performance_stats''], [''get_system_health''],
              [''get_performance_stats'', ''get_system_health''],
              [''get_system_health'', ''get_system_health'']}"
    unfolding r nextSteps_fresh by (rule buildNextSteps_cases)
  have 3: "distinct (nextStepsToCheck (fst (getHealthAlerts s e))) \<longleftrightarrow>
             nextStepsToCheck (fst (getHealthAlerts s e)) \<noteq>
               [''get_system_health'', ''get_system_health'']"
    unfolding r nextSteps_fresh by (rule buildNextSteps_distinct)
  have 4: "''get_performance_stats'' \<in> set (nextStepsToCheck (freshReport e)) \<longleftrightarrow>
              js_gt (cpuQuick e) 80 \<or> js_gt (usagePercent (memoryQuick e)) 85"
    unfolding nextSteps_fresh by (rule nextSteps_performance)
  have 5: "js_gt (cpuQuick e) 80 \<or> js_gt (usagePercent (memoryQuick e)) 85 \<longrightarrow>
              take 1 (nextStepsToCheck (freshReport e)) = [''get_performance_stats'']"
    unfolding nextSteps_fresh using nextSteps_performance_first by blast
  have 6: "js_lt (percentFree (getDiskQuickCheck (diskExec e))) 20 \<longrightarrow>
              ''get_system_health'' \<in> set (nextStepsToCheck (freshReport e))"
    unfolding nextSteps_fresh using nextSteps_disk by blast
  have 7: "list_ex (\<lambda>m. str_includes m ''Defender'') (critical (freshReport e)) \<longrightarrow>
              ''get_system_health'' \<in> set (nextStepsToCheck (freshReport e))"
    unfolding nextSteps_fresh fresh_lists using nextSteps_Defender by blast
  have 8: "nextStepsToCheck (freshReport e) = [''get_system_health'', ''get_system_health'']
              \<longrightarrow>
              \<not> (js_gt (cpuQuick e) 80 \<or> js_gt (usagePercent (memoryQuick e)) 85) \<and>
              js_lt (percentFree (getDiskQuickCheck (diskExec e))) 20"
    unfolding nextSteps_fresh using nextSteps_doubled_only by blast
  have 9: "\<not> (js_gt (cpuQuick e) 80 \<or> js_gt (usagePercent (memoryQuick e)) 85) \<and>
              js_lt (percentFree (getDiskQuickCheck (diskExec e))) 20 \<and>
              list_ex (\<lambda>m. str_includes m ''Defender'') (critical (freshReport e)) \<longrightarrow>
              nextStepsToCheck (freshReport e) =
                [''get_system_health'', ''get_system_health'']"
    unfolding nextSteps_fresh fresh_lists using nextSteps_doubled by blast
  from 1 2 3 4 5 6 7 8 9 show ?thesis by blast
qed

lemma collect_disk_defender:
  "critical (collectAlerts env_disk_defender) =
     [warning_sign @ '' Disk space critical: 3% free'',
      warning_sign @ '' Windows Defender is disabled'']"
  by (simp add: env_defs block_defs security_defender_only show_num_def digits.simps)

theorem next_steps_shape_witness:
  "reachable initial_state
   \<and> length (nextStepsToCheck (fst (getHealthAlerts initial_state env_all_critical))) \<le> 2
   \<and> distinct (nextStepsToCheck (fst (getHealthAlerts initial_state env_all_critical)))
   \<and> nextStepsToCheck (fst (getHealthAlerts initial_state env_all_critical)) =
       [''get_performance_stats'', ''get_system_health'']
   \<and> js_lt (percentFree (getDiskQuickCheck (diskExec env_disk_defender))) 20
   \<and> list_ex (\<lambda>m. str_includes m ''Defender'') (critical (freshReport env_disk_defender))
   \<and> \<not> (js_gt (cpuQuick env_disk_defender) 80 \<or>
          js_gt (usagePercent (memoryQuick env_disk_defender)) 85)
   \<and> ''get_system_health'' \<in> set (nextStepsToCheck (freshReport env_disk_defender))
   \<and> nextStepsToCheck (freshReport env_disk_defender) =
       [''get_system_health'', ''get_system_health'']"
proof -
  note h = next_steps_shape [OF reachable_init, of env_all_critical]
  note k = next_steps_shape [OF reachable_init, of env_disk_defender]
  have rule1: "js_gt (cpuQuick env_all_critical) 80"
    and disk: "js_lt (percentFree (getDiskQuickCheck (diskExec env_all_critical))) 20"
    by (simp_all add: env_defs)
  have first: "take 1 (nextStepsToCheck (freshReport env_all_critical)) =
                 [''get_performance_stats'']"
    using h [THEN conjunct2, THEN conjunct2, THEN conjunct2, THEN conjunct2, THEN conjunct1]
      rule1 by blast
  have sys: "''get_system_health'' \<in> set (nextStepsToCheck (freshReport env_all_critical))"
    using h [THEN conjunct2, THEN conjunct2, THEN conjunct2, THEN conjunct2, THEN conjunct2,
        THEN conjunct1] disk by blast
  have shape: "nextStepsToCheck (freshReport env_all_critical) \<in>
             {[], [''get_performance_stats''], [''get_system_health''],
              [''get_performance_stats'', ''get_system_health''],
              [''get_system_health'', ''get_system_health'']}"
    using h [THEN conjunct2, THEN conjunct1] by (simp only: first_call_fresh)
  have v: "nextStepsToCheck (freshReport env_all_critical) =
             [''get_performance_stats'', ''get_system_health'']"
    using shape first sys by auto
  have d20: "js_lt (percentFree (getDiskQuickCheck (diskExec env_disk_defender))) 20"
    and quiet: "\<not> (js_gt (cpuQuick env_disk_defender) 80 \<or>
          js_gt (usagePercent (memoryQuick env_disk_defender)) 85)"
    by (simp_all add: env_defs)
  have def: "list_ex (\<lambda>m. str_includes m ''Defender'')
               (critical (freshReport env_disk_defender))"
    by (simp add: fresh_lists collect_disk_defender warning_sign_def)
  have dbl: "nextStepsToCheck (freshReport env_disk_defender) =
               [''get_system_health'', ''get_system_health'']"
    using k [THEN conjunct2, THEN conjunct2, THEN conjunct2, THEN conjunct2, THEN conjunct2,
        THEN conjunct2, THEN conjunct2, THEN conjunct2] quiet d20 def by blast
  have mem: "''get_system_health'' \<in> set (nextStepsToCheck (freshReport env_disk_defender))"
    using k [THEN conjunct2, THEN conjunct2, THEN conjunct2, THEN conjunct2, THEN conjunct2,
        THEN conjunct2, THEN conjunct1] def by blast
  from v d20 def quiet mem dbl show ?thesis
    by (simp add: first_call_fresh reachable_init)
qed

subsection \<open>A disabled firewall\<close>

lemma collect_firewall_off:
  "critical (collectAlerts env_firewall_off) = [warning_sign @ '' Windows Firewall is disabled'']"
  "warning (collectAlerts env_firewall_off) = []"
  by (simp_all add: env_defs block_defs security_firewall_only)

lemma firewall_message_no_Defender:
  "\<not> str_includes (warning_sign @ '' Windows Firewall is disabled'') ''Defender''"
  by (simp add: warning_sign_def)

lemma nextSteps_firewall_off: "nextStepsToCheck (freshReport env_firewall_off) = []"
  by (simp add: nextSteps_fresh buildNextSteps_def collect_firewall_off
      firewall_message_no_Defender)
    (simp add: env_defs)

lemma summary_firewall_off:
  "actionableSummary (freshReport env_firewall_off) =
     red_circle @ '' CRITICAL: '' @ warning_sign @
     '' Windows Firewall is disabled. Run: get_performance_stats''"
proof -
  have "actionableSummary (freshReport env_firewall_off) =
          generateSummary (collectAlerts env_firewall_off)
            (nextStepsToCheck (freshReport env_firewall_off))"
    by (simp add: freshReport_def Let_def)
  then show ?thesis
    by (simp add: nextSteps_firewall_off generateSummary_def collect_firewall_off or_else_def)
qed

text \<open>
  Claim C3 on the code: when the firewall is the only thing wrong, the single critical
  alert is the firewall message, yet the recommendation list is empty (rule 3 looks for
  \<^verbatim>\<open>"Defender"\<close> only) and the summary falls back to \<^verbatim>\<open>get_performance_stats\<close>.
\<close>

theorem firewall_alert_no_recommendation:
  "critical (fst (getHealthAlerts initial_state env_firewall_off)) =
     [warning_sign @ '' Windows Firewall is disabled'']
   \<and> nextStepsToCheck (fst (getHealthAlerts initial_state env_firewall_off)) = []
   \<and> actionableSummary (fst (getHealthAlerts initial_state env_firewall_off)) =
       red_circle @ '' CRITICAL: '' @ warning_sign @
       '' Windows Firewall is disabled. Run: get_performance_stats''"
  by (simp add: first_call_fresh fresh_lists collect_firewall_off nextSteps_firewall_off
      summary_firewall_off)

text \<open>The Defender half of the rule does hold.\<close>

lemma defender_alert_recommends:
  assumes "defenderDisabled (getSecurityQuickCheck (defenderExec e) (firewallExec e))"
  shows "''get_system_health'' \<in> set (nextStepsToCheck (freshReport e))"
proof -
  have "warning_sign @ '' Windows Defender is disabled'' \<in> set (critical (collectAlerts e))"
    using assms by (simp add: collectAlerts_def securityAlerts_def Let_def)
  moreover have "str_includes (warning_sign @ '' Windows Defender is disabled'') ''Defender''"
    by (simp add: warning_sign_def)
  ultimately have "list_ex (\<lambda>m. str_includes m ''Defender'') (critical (collectAlerts e))"
    unfolding list_ex_iff by blast
  then show ?thesis
    by (simp add: nextSteps_fresh buildNextSteps_def Let_def)
qed

subsection \<open>Thresholds\<close>

text \<open>
  Claim C5 as stated fails: at exactly 90 % CPU and 90 % memory nothing is critical (both
  readings are warnings), and at exactly 80 % CPU and 85 % memory there is no warning.
\<close>

theorem thresholds_inclusive_counterexample:
  "critical (fst (getHealthAlerts initial_state env_at_90)) = []
   \<and> warning (fst (getHealthAlerts initial_state env_at_90)) =
       [''CPU elevated: 90%'', ''Memory elevated: 90%'']
   \<and> warning (fst (getHealthAlerts initial_state env_at_80_85)) = []"
  by (simp add: first_call_fresh fresh_lists env_defs block_defs security_nominal
      show_num_def digits.simps)

text \<open>
  Claim C5, amended. The thresholds are exclusive: the CPU block adds a critical alert
  exactly for readings above 90 and a warning exactly for readings above 80 and at most 90;
  the memory block does the same with 90 and 85.
\<close>

theorem thresholds_exclusive:
  "length (critical (cpuAlerts (Num x) a)) = length (critical a) + (if 90 < x then 1 else 0)
   \<and> length (warning (cpuAlerts (Num x) a)) =
       length (warning a) + (if 80 < x \<and> x \<le> 90 then 1 else 0)
   \<and> length (critical (memoryAlerts (m\<lparr>usagePercent := Num y\<rparr>) a)) =
       length (critical a) + (if 90 < y then 1 else 0)
   \<and> length (warning (memoryAlerts (m\<lparr>usagePercent := Num y\<rparr>) a)) =
       length (warning a) + (if 85 < y \<and> y \<le> 90 then 1 else 0)"
  by (simp add: cpuAlerts_def memoryAlerts_def)

theorem thresholds_exclusive_witness:
  "length (critical (cpuAlerts (Num 90) (collectAlerts env_nominal))) = 0
   \<and> length (warning (cpuAlerts (Num 90) (collectAlerts env_nominal))) = 1
   \<and> length (warning (cpuAlerts (Num 80) (collectAlerts env_nominal))) = 0
   \<and> length (critical (memoryAlerts ((memoryQuick env_nominal)\<lparr>usagePercent := Num 90\<rparr>)
         (collectAlerts env_nominal))) = 0
   \<and> length (warning (memoryAlerts ((memoryQuick env_nominal)\<lparr>usagePercent := Num 90\<rparr>)
         (collectAlerts env_nominal))) = 1
   \<and> length (warning (memoryAlerts ((memoryQuick env_nominal)\<lparr>usagePercent := Num 85\<rparr>)
         (collectAlerts env_nominal))) = 0"
proof -
  have c: "critical (collectAlerts env_nominal) = []" "warning (collectAlerts env_nominal) = []"
    by (simp_all add: env_defs block_defs security_nominal)
  show ?thesis
    using thresholds_exclusive [where x = 90 and a = "collectAlerts env_nominal"
          and m = "memoryQuick env_nominal" and y = 90]
      thresholds_exclusive [where x = 80 and a = "collectAlerts env_nominal"
          and m = "memoryQuick env_nominal" and y = 85]
    by (simp add: c)
qed

subsection \<open>Failing collectors\<close>

text \<open>
  A rejected disk query degrades to \<^verbatim>\<open>"N/A"\<close>, which no threshold and no rule reacts to,
  and a rejected Defender query reads as "not disabled".
\<close>

lemma disk_query_fails:
  "percentFree (getDiskQuickCheck Rejected) = NA"
  "diskAlerts (getDiskQuickCheck Rejected) a = a"
  "\<not> js_lt (percentFree (getDiskQuickCheck Rejected)) 20"
  by (simp_all add: diskAlerts_def)

lemma defender_query_fails:
  "\<not> defenderDisabled (getSecurityQuickCheck Rejected fw)"
  by (simp add: getSecurityQuickCheck_def trim_def Let_def)

lemma security_firewall_rejected:
  "getSecurityQuickCheck (Resolved ''False'') Rejected =
     \<lparr>defenderDisabled = False, firewallDisabled = True\<rparr>"
  by (simp add: getSecurityQuickCheck_def trim_def ws_defs parseInt_0)

text \<open>
  Claim C6 on the code: when the firewall query is rejected, its output continues as the
  empty string, \<^verbatim>\<open>"" || "0"\<close> turns that into zero enabled profiles, and the report
  carries the critical alert "Windows Firewall is disabled" with a score of 85, on a
  machine where nothing else is wrong.
\<close>

theorem firewall_query_failure_alerts:
  "firewallDisabled (getSecurityQuickCheck (defenderExec env_firewall_query_fails)
      (firewallExec env_firewall_query_fails))
   \<and> critical (fst (getHealthAlerts initial_state env_firewall_query_fails)) =
       [warning_sign @ '' Windows Firewall is disabled'']
   \<and> systemHealthScore (fst (getHealthAlerts initial_state env_firewall_query_fails)) =
       \<lparr>score = 85, status = ''Good''\<rparr>"
proof -
  have c: "critical (collectAlerts env_firewall_query_fails) =
             [warning_sign @ '' Windows Firewall is disabled'']"
    "warning (collectAlerts env_firewall_query_fails) = []"
    by (simp_all add: env_defs block_defs security_firewall_rejected)
  have "systemHealthScore (freshReport env_firewall_query_fails) =
          calculateHealthScore (collectAlerts env_firewall_query_fails)"
    by (simp add: freshReport_def Let_def)
  then have "systemHealthScore (freshReport env_firewall_query_fails) =
          \<lparr>score = 85, status = ''Good''\<rparr>"
    by (simp add: calculateHealthScore_def c)
  then show ?thesis
    by (simp add: first_call_fresh fresh_lists c)
      (simp add: env_defs security_firewall_rejected)
qed

subsection \<open>Summary\<close>

lemma summary_fresh:
  "actionableSummary (freshReport e) =
     generateSummary (collectAlerts e) (nextStepsToCheck (freshReport e))"
  by (simp add: freshReport_def Let_def)

lemma join_nextSteps:
  "or_else (join '', '' (buildNextSteps a c m d)) fallback =
     (if buildNextSteps a c m d = [] then fallback else join '', '' (buildNextSteps a c m d))"
  using buildNextSteps_cases [of a c m d] by (auto simp: or_else_def)

lemma warning_has_probe:
  "warning (collectAlerts e) \<noteq> [] \<Longrightarrow>
   buildNextSteps a (cpuQuick e) (memoryQuick e) (getDiskQuickCheck (diskExec e)) \<noteq> []"
  by (auto simp: block_defs buildNextSteps_def Let_def split: if_splits)

text \<open>
  Claim C8 as stated fails: with the firewall off and nothing else wrong there is a
  critical alert and no recommended probe, and the summary does not end with the
  recommended probes but with \<^verbatim>\<open>get_performance_stats\<close>, which is not recommended.
\<close>

theorem summary_probes_counterexample:
  "critical (fst (getHealthAlerts initial_state env_firewall_off)) \<noteq> []
   \<and> nextStepsToCheck (fst (getHealthAlerts initial_state env_firewall_off)) = []
   \<and> actionableSummary (fst (getHealthAlerts initial_state env_firewall_off)) =
       red_circle @ '' CRITICAL: '' @ warning_sign @
       '' Windows Firewall is disabled. Run: get_performance_stats''
   \<and> actionableSummary (fst (getHealthAlerts initial_state env_firewall_off)) \<noteq>
       red_circle @ '' CRITICAL: '' @
       join ''; '' (take 2 (critical (fst (getHealthAlerts initial_state env_firewall_off)))) @
       ''. Run: '' @
       join '', '' (nextStepsToCheck (fst (getHealthAlerts initial_state env_firewall_off)))"
  by (simp add: first_call_fresh fresh_lists collect_firewall_off nextSteps_firewall_off
      summary_firewall_off)

text \<open>
  Claim C8, amended. In a freshly computed report the summary is: with a critical alert,
  the CRITICAL lead, the first one or two critical messages joined by "; ", and after
  "Run:" the recommended probes, or the fixed text \<^verbatim>\<open>get_performance_stats\<close> when no probe is
  recommended; otherwise with a warning, the WARNING lead, the first one or two warnings
  and the recommended probes, of which there is then at least one; otherwise
  "System healthy" with the score, which is then 100.
\<close>

theorem summary_composition:
  "(critical (freshReport e) \<noteq> [] \<longrightarrow>
      actionableSummary (freshReport e) =
        red_circle @ '' CRITICAL: '' @ join ''; '' (take 2 (critical (freshReport e))) @
        ''. Run: '' @
        (if nextStepsToCheck (freshReport e) = [] then ''get_performance_stats''
         else join '', '' (nextStepsToCheck (freshReport e))))
   \<and> (critical (freshReport e) = [] \<and> warning (freshReport e) \<noteq> [] \<longrightarrow>
      nextStepsToCheck (freshReport e) \<noteq> [] \<and>
      actionableSummary (freshReport e) =
        yellow_circle @ '' WARNING: '' @ join ''; '' (take 2 (warning (freshReport e))) @
        ''. Run: '' @ join '', '' (nextStepsToCheck (freshReport e)))
   \<and> (critical (freshReport e) = [] \<and> warning (freshReport e) = [] \<longrightarrow>
      score (systemHealthScore (freshReport e)) = 100 \<and>
      actionableSummary (freshReport e) =
        check_mark @ '' System healthy (score: '' @
        show_int (score (systemHealthScore (freshReport e))) @ ''/100)'')"
proof -
  have j: "\<And>fallback. or_else (join '', '' (nextStepsToCheck (freshReport e))) fallback =
     (if nextStepsToCheck (freshReport e) = [] then fallback
      else join '', '' (nextStepsToCheck (freshReport e)))"
    unfolding nextSteps_fresh by (rule join_nextSteps)
  have 1: "critical (freshReport e) \<noteq> [] \<longrightarrow>
      actionableSummary (freshReport e) =
        red_circle @ '' CRITICAL: '' @ join ''; '' (take 2 (critical (freshReport e))) @
        ''. Run: '' @
        (if nextStepsToCheck (freshReport e) = [] then ''get_performance_stats''
         else join '', '' (nextStepsToCheck (freshReport e)))"
    by (simp add: summary_fresh generateSummary_def Let_def fresh_lists j)
  have p: "warning (freshReport e) \<noteq> [] \<longrightarrow> nextStepsToCheck (freshReport e) \<noteq> []"
    unfolding nextSteps_fresh fresh_lists using warning_has_probe by blast
  have 2: "critical (freshReport e) = [] \<and> warning (freshReport e) \<noteq> [] \<longrightarrow>
      nextStepsToCheck (freshReport e) \<noteq> [] \<and>
      actionableSummary (freshReport e) =
        yellow_circle @ '' WARNING: '' @ join ''; '' (take 2 (warning (freshReport e))) @
        ''. Run: '' @ join '', '' (nextStepsToCheck (freshReport e))"
    using p by (simp add: summary_fresh generateSummary_def Let_def fresh_lists j)
  have 3: "critical (freshReport e) = [] \<and> warning (freshReport e) = [] \<longrightarrow>
      score (systemHealthScore (freshReport e)) = 100 \<and>
      actionableSummary (freshReport e) =
        check_mark @ '' System healthy (score: '' @
        show_int (score (systemHealthScore (freshReport e))) @ ''/100)''"
    by (simp add: summary_fresh generateSummary_def Let_def fresh_lists info_collectAlerts
        score_fresh)
      (simp add: freshReport_def Let_def calculateHealthScore_def)
  from 1 2 3 show ?thesis by blast
qed

lemma show_int_100: "show_int 100 = ''100''"
  by (simp add: show_int_def digits.simps)

theorem summary_composition_witness:
  "critical (freshReport env_nominal) = [] \<and> warning (freshReport env_nominal) = [] \<and>
   actionableSummary (freshReport env_nominal) = check_mark @ '' System healthy (score: 100/100)''
   \<and> critical (freshReport env_all_critical) \<noteq> [] \<and>
   take 2 (critical (freshReport env_all_critical)) =
     [warning_sign @ '' CPU critically high: 95%'',
      warning_sign @ '' Memory critically high: 95%''] \<and>
   actionableSummary (freshReport env_all_critical) =
     red_circle @ '' CRITICAL: '' @ warning_sign @ '' CPU critically high: 95%; '' @
     warning_sign @ '' Memory critically high: 95%. Run: get_performance_stats, get_system_health''
   \<and> critical (freshReport env_firewall_off) \<noteq> [] \<and>
   actionableSummary (freshReport env_firewall_off) =
     red_circle @ '' CRITICAL: '' @ warning_sign @
     '' Windows Firewall is disabled. Run: get_performance_stats''
   \<and> critical (freshReport env_at_90) = [] \<and> warning (freshReport env_at_90) \<noteq> [] \<and>
   actionableSummary (freshReport env_at_90) =
     yellow_circle @
     '' WARNING: CPU elevated: 90%; Memory elevated: 90%. Run: get_performance_stats''"
proof -
  have n: "critical (freshReport env_nominal) = []" "warning (freshReport env_nominal) = []"
    by (simp_all add: fresh_lists env_defs block_defs security_nominal)
  have sn: "actionableSummary (freshReport env_nominal) =
              check_mark @ '' System healthy (score: 100/100)''"
    using summary_composition [of env_nominal, THEN conjunct2, THEN conjunct2] n
    by (simp add: show_int_100)
  have c: "take 2 (critical (freshReport env_all_critical)) =
     [warning_sign @ '' CPU critically high: 95%'',
      warning_sign @ '' Memory critically high: 95%'']"
    by (simp add: fresh_lists env_defs block_defs security_both_off show_num_def digits.simps)
  then have cn: "critical (freshReport env_all_critical) \<noteq> []"
    by auto
  have nc: "nextStepsToCheck (freshReport env_all_critical) =
              [''get_performance_stats'', ''get_system_health'']"
    by (simp add: nextSteps_fresh buildNextSteps_def Let_def env_defs)
  have sc: "actionableSummary (freshReport env_all_critical) =
     red_circle @ '' CRITICAL: '' @ warning_sign @ '' CPU critically high: 95%; '' @
     warning_sign @ '' Memory critically high: 95%. Run: get_performance_stats, get_system_health''"
    using summary_composition [of env_all_critical, THEN conjunct1] cn
    by (simp add: c nc)
  have f: "critical (freshReport env_firewall_off) =
             [warning_sign @ '' Windows Firewall is disabled'']"
    by (simp add: fresh_lists collect_firewall_off)
  have sf: "actionableSummary (freshReport env_firewall_off) =
     red_circle @ '' CRITICAL: '' @ warning_sign @
     '' Windows Firewall is disabled. Run: get_performance_stats''"
    using summary_composition [of env_firewall_off, THEN conjunct1]
    by (simp add: f nextSteps_firewall_off)
  have w: "critical (freshReport env_at_90) = []"
    "warning (freshReport env_at_90) = [''CPU elevated: 90%'', ''Memory elevated: 90%'']"
    by (simp_all add: fresh_lists env_defs block_defs security_nominal show_num_def digits.simps)
  have nw: "nextStepsToCheck (freshReport env_at_90) = [''get_performance_stats'']"
    by (simp add: nextSteps_fresh buildNextSteps_def w [unfolded fresh_lists])
      (simp add: env_defs)
  have sw: "actionableSummary (freshReport env_at_90) =
     yellow_circle @
     '' WARNING: CPU elevated: 90%; Memory elevated: 90%. Run: get_performance_stats''"
    using summary_composition [of env_at_90, THEN conjunct2, THEN conjunct1]
    by (simp add: w nw)
  from n sn c cn sc f sf w sw show ?thesis by simp
qed

subsection \<open>The cache of the aggregator\<close>

text \<open>
  \<open>cache_timely\<close> holds at the start and is kept by every call whose \<^verbatim>\<open>new Date()\<close> is
  not earlier than its \<^verbatim>\<open>Date.now()\<close> and less than the TTL later.
\<close>

lemma cache_timely_initial: "cache_timely initial_state"
  by (simp add: cache_timely_def initial_state_def)

lemma cache_timely_call:
  assumes "cache_timely s" and "now e \<le> date_alerts e" and "date_alerts e < now e + CACHE_TTL"
  shows "cache_timely (snd (getHealthAlerts s e))"
  using assms
  by (auto simp: cache_timely_def getHealthAlerts_def fresh_lists split: option.splits)

text \<open>
  Claim C4. With a report in the cache: a call whose \<^verbatim>\<open>now\<close> is less than 3000 ms after
  the stored \<^verbatim>\<open>cacheTimestamp\<close> returns that report as it is (timestamp and
  \<^verbatim>\<open>cacheInfo\<close> included) and leaves the state alone; a call that is not computes a new
  report, stores it with the current \<^verbatim>\<open>now\<close>, and its timestamp is strictly later than the
  cached one. The clock is an input of the model: "strictly later" is under a clock that
  does not run backwards between the \<^verbatim>\<open>Date.now()\<close> and the \<^verbatim>\<open>new Date()\<close> of a call, for
  a cache entry that is \<open>cache_timely\<close>.
\<close>

theorem cache_contract:
  assumes "alertCache s = Some cached"
  shows "(now e - cacheTimestamp s < CACHE_TTL \<longrightarrow> getHealthAlerts s e = (cached, s))
         \<and> (\<not> now e - cacheTimestamp s < CACHE_TTL \<and> cache_timely s \<and>
              now e \<le> date_alerts e \<longrightarrow>
              fst (getHealthAlerts s e) = freshReport e \<and>
              snd (getHealthAlerts s e) =
                \<lparr>alertCache = Some (freshReport e), cacheTimestamp = now e\<rparr> \<and>
              timestamp cached < timestamp (fst (getHealthAlerts s e)))"
  using assms
  by (auto simp: getHealthAlerts_def cache_timely_def fresh_lists)

lemma state_after_first:
  "snd (getHealthAlerts initial_state e) =
     \<lparr>alertCache = Some (freshReport e), cacheTimestamp = now e\<rparr>"
  by (simp add: getHealthAlerts_def initial_state_def)

theorem cache_contract_witness:
  "alertCache (snd (getHealthAlerts initial_state env_nominal)) = Some (freshReport env_nominal)
   \<and> getHealthAlerts (snd (getHealthAlerts initial_state env_nominal)) env_within_ttl =
       (freshReport env_nominal, snd (getHealthAlerts initial_state env_nominal))
   \<and> cache_timely (snd (getHealthAlerts initial_state env_nominal))
   \<and> fst (getHealthAlerts (snd (getHealthAlerts initial_state env_nominal)) env_after_ttl) =
       freshReport env_after_ttl
   \<and> timestamp (freshReport env_nominal) = 1000
   \<and> timestamp (fst (getHealthAlerts (snd (getHealthAlerts initial_state env_nominal))
                      env_after_ttl)) = 4000"
proof -
  let ?s = "snd (getHealthAlerts initial_state env_nominal)"
  have c: "alertCache ?s = Some (freshReport env_nominal)"
    by (simp add: state_after_first)
  have ts: "cacheTimestamp ?s = 1000"
    by (simp add: state_after_first env_defs)
  have t: "cache_timely ?s"
    by (rule cache_timely_call [OF cache_timely_initial]) (simp_all add: env_defs CACHE_TTL_def)
  have n: "now env_within_ttl = 3999" "now env_after_ttl = 4000"
    "date_alerts env_after_ttl = 4000" "date_alerts env_nominal = 1000"
    by (simp_all add: env_within_ttl_def env_after_ttl_def env_defs)
  have hit: "getHealthAlerts ?s env_within_ttl = (freshReport env_nominal, ?s)"
    using cache_contract [OF c, of env_within_ttl, THEN conjunct1]
    by (simp add: ts n CACHE_TTL_def)
  have miss: "fst (getHealthAlerts ?s env_after_ttl) = freshReport env_after_ttl"
    using cache_contract [OF c, of env_after_ttl, THEN conjunct2] t
    by (simp add: ts n CACHE_TTL_def)
  show ?thesis
    using c hit t miss by (simp add: fresh_lists n)
qed

subsection \<open>The caches of the thermal and the network probe\<close>

lemma thermal_first_call:
  "getThermalStatus thermal_initial_state e =
     (thermalResult e, \<lparr>thermalCache = Some (thermalResult e),
                        thermal_cacheTimestamp = thermal_now e\<rparr>)"
  by (simp add: getThermalStatus_def thermal_initial_state_def)

lemma network_first_call:
  "snd (getNetworkStatus network_initial_state e) =
     \<lparr>connectivityCache = Some (pingResult (pingExec e)), connectivityTimestamp = net_now e\<rparr>"
  "internetConnectivity (fst (getNetworkStatus network_initial_state e)) =
     pingResult (pingExec e)"
  "net_timestamp (fst (getNetworkStatus network_initial_state e)) = net_date_report e"
  by (simp_all add: getNetworkStatus_def checkInternetConnectivity_def network_initial_state_def
      split: prod.splits)

lemma network_cache_hit:
  assumes "connectivityCache ns = Some conn"
    and "net_now e - connectivityTimestamp ns < CONNECTIVITY_CACHE_TTL"
  shows "snd (getNetworkStatus ns e) = ns"
    and "internetConnectivity (fst (getNetworkStatus ns e)) = conn\<lparr>fromCache := True\<rparr>"
    and "net_timestamp (fst (getNetworkStatus ns e)) = net_date_report e"
  using assms
  by (simp_all add: getNetworkStatus_def checkInternetConnectivity_def split: prod.splits)

text \<open>
  Claim C7 as stated fails for the network probe: a second \<^verbatim>\<open>getNetworkStatus\<close> one second
  after the first, well inside the 30 s, returns a different report: a new timestamp, and a
  connectivity entry marked \<^verbatim>\<open>fromCache\<close>.
\<close>

theorem network_report_not_cached_counterexample:
  "net_now network_env_again -
     connectivityTimestamp (snd (getNetworkStatus network_initial_state network_env_online))
     < CONNECTIVITY_CACHE_TTL
   \<and> fst (getNetworkStatus (snd (getNetworkStatus network_initial_state network_env_online))
            network_env_again)
       \<noteq> fst (getNetworkStatus network_initial_state network_env_online)
   \<and> net_timestamp (fst (getNetworkStatus network_initial_state network_env_online)) = 1800
   \<and> net_timestamp (fst (getNetworkStatus
         (snd (getNetworkStatus network_initial_state network_env_online))
         network_env_again)) = 2001
   \<and> \<not> fromCache (internetConnectivity
         (fst (getNetworkStatus network_initial_state network_env_online)))
   \<and> fromCache (internetConnectivity (fst (getNetworkStatus
         (snd (getNetworkStatus network_initial_state network_env_online))
         network_env_again)))"
proof -
  let ?s = "snd (getNetworkStatus network_initial_state network_env_online)"
  let ?r1 = "fst (getNetworkStatus network_initial_state network_env_online)"
  let ?r2 = "fst (getNetworkStatus ?s network_env_again)"
  have nc: "connectivityCache ?s = Some (pingResult (Resolved ''True''))"
    and nt: "connectivityTimestamp ?s = 1000"
    by (simp_all add: network_first_call network_env_online_def)
  have nn: "net_now network_env_again = 2000" "net_date_report network_env_again = 2001"
    by (simp_all add: network_env_again_def network_env_online_def)
  have w: "net_now network_env_again - connectivityTimestamp ?s < CONNECTIVITY_CACHE_TTL"
    by (simp add: nt nn CONNECTIVITY_CACHE_TTL_def)
  have t1: "net_timestamp ?r1 = 1800"
    by (simp add: network_first_call network_env_online_def)
  have f1: "\<not> fromCache (internetConnectivity ?r1)"
    by (simp add: network_first_call network_env_online_def)
  have t2: "net_timestamp ?r2 = 2001"
    by (simp add: network_cache_hit(3) [OF nc w] nn)
  have f2: "fromCache (internetConnectivity ?r2)"
    by (simp add: network_cache_hit(2) [OF nc w])
  have ne: "?r2 \<noteq> ?r1"
    using t1 t2 by auto
  from w ne t1 t2 f1 f2 show ?thesis by blast
qed

lemma network_cache_miss:
  assumes "connectivityCache ns = None \<or>
           \<not> net_now e - connectivityTimestamp ns < CONNECTIVITY_CACHE_TTL"
  shows "checkInternetConnectivity ns (net_now e) (pingExec e) =
           (pingResult (pingExec e),
            \<lparr>connectivityCache = Some (pingResult (pingExec e)),
             connectivityTimestamp = net_now e\<rparr>)"
  using assms by (auto simp: checkInternetConnectivity_def split: option.splits)

text \<open>
  Claim C7, amended. The thermal probe caches its whole report for 10 s: a call less than
  10000 ms after the stored \<^verbatim>\<open>cacheTimestamp\<close> returns the cached report and leaves the state
  alone; any other call builds a new report from the current readings, stamped with the
  current dates and \<^verbatim>\<open>staleAfter\<close> 10000, and stores it with the current \<^verbatim>\<open>now\<close>. The network
  module caches only the connectivity result, for 30 s: a call less than 30000 ms after the
  stored \<^verbatim>\<open>connectivityTimestamp\<close> runs no ping and uses the cached result with
  \<^verbatim>\<open>fromCache: true\<close> added; any other call takes the result of a new ping and stores it
  with the current \<^verbatim>\<open>now\<close>. In both cases \<^verbatim>\<open>getNetworkStatus\<close> builds a new report around the
  connectivity result: the current timestamp, interfaces and devices, and the severity,
  recommendations and summary computed from them. The two caches are separate variables of
  separate modules.
\<close>

theorem probe_caches:
  "(thermalCache ts = Some cached \<and> thermal_now te - thermal_cacheTimestamp ts < 10000 \<longrightarrow>
      getThermalStatus ts te = (cached, ts))
   \<and> (thermalCache ts = None \<or> \<not> thermal_now te - thermal_cacheTimestamp ts < 10000 \<longrightarrow>
      getThermalStatus ts te =
        (thermalResult te,
         \<lparr>thermalCache = Some (thermalResult te), thermal_cacheTimestamp = thermal_now te\<rparr>))
   \<and> thermal_timestamp (thermalResult te) = thermal_date_report te
   \<and> thermal_cacheInfo (thermalResult te) =
       \<lparr>cachedAt = thermal_date_cached te, staleAfter = 10000\<rparr>
   \<and> cpu (thermalResult te) =
       \<lparr>temperatureCelsius = cpuTemp te,
        temp_unit = (if is_number (cpuTemp te) then degree_sign @ ''C'' else ''N/A'')\<rparr>
   \<and> (connectivityCache ns = Some conn \<and> net_now ne - connectivityTimestamp ns < 30000 \<longrightarrow>
      checkInternetConnectivity ns (net_now ne) (pingExec ne) =
        (conn\<lparr>fromCache := True\<rparr>, ns) \<and>
      getNetworkStatus ns ne =
        (\<lparr>net_timestamp = net_date_report ne,
          net_severity = fst (networkSeverity (conn\<lparr>fromCache := True\<rparr>) (net_devices ne)),
          interfaces = net_interfaces ne,
          internetConnectivity = conn\<lparr>fromCache := True\<rparr>,
          connectedDevices = net_devices ne,
          net_actionableSummary =
            networkSummary (net_interfaces ne) (conn\<lparr>fromCache := True\<rparr>) (net_devices ne),
          net_recommendations =
            snd (networkSeverity (conn\<lparr>fromCache := True\<rparr>) (net_devices ne)),
          net_nextStepsToCheck = []\<rparr>,
         ns))
   \<and> (connectivityCache ns = None \<or> \<not> net_now ne - connectivityTimestamp ns < 30000 \<longrightarrow>
      checkInternetConnectivity ns (net_now ne) (pingExec ne) =
        (pingResult (pingExec ne),
         \<lparr>connectivityCache = Some (pingResult (pingExec ne)),
          connectivityTimestamp = net_now ne\<rparr>) \<and>
      getNetworkStatus ns ne =
        (\<lparr>net_timestamp = net_date_report ne,
          net_severity = fst (networkSeverity (pingResult (pingExec ne)) (net_devices ne)),
          interfaces = net_interfaces ne,
          internetConnectivity = pingResult (pingExec ne),
          connectedDevices = net_devices ne,
          net_actionableSummary =
            networkSummary (net_interfaces ne) (pingResult (pingExec ne)) (net_devices ne),
          net_recommendations =
            snd (networkSeverity (pingResult (pingExec ne)) (net_devices ne)),
          net_nextStepsToCheck = []\<rparr>,
         \<lparr>connectivityCache = Some (pingResult (pingExec ne)),
          connectivityTimestamp = net_now ne\<rparr>))"
proof -
  have 1: "thermalCache ts = Some cached \<and>
           thermal_now te - thermal_cacheTimestamp ts < 10000 \<longrightarrow>
           getThermalStatus ts te = (cached, ts)"
    by (simp add: getThermalStatus_def THERMAL_CACHE_TTL_def)
  have 2: "thermalCache ts = None \<or> \<not> thermal_now te - thermal_cacheTimestamp ts < 10000 \<longrightarrow>
      getThermalStatus ts te =
        (thermalResult te,
         \<lparr>thermalCache = Some (thermalResult te), thermal_cacheTimestamp = thermal_now te\<rparr>)"
    by (auto simp: getThermalStatus_def THERMAL_CACHE_TTL_def split: option.splits)
  have 3: "thermal_timestamp (thermalResult te) = thermal_date_report te"
    "thermal_cacheInfo (thermalResult te) =
       \<lparr>cachedAt = thermal_date_cached te, staleAfter = 10000\<rparr>"
    "cpu (thermalResult te) =
       \<lparr>temperatureCelsius = cpuTemp te,
        temp_unit = (if is_number (cpuTemp te) then degree_sign @ ''C'' else ''N/A'')\<rparr>"
    by (simp_all add: thermalResult_def THERMAL_CACHE_TTL_def split: prod.splits)
  have 4: "connectivityCache ns = Some conn \<and>
           net_now ne - connectivityTimestamp ns < 30000 \<longrightarrow>
      checkInternetConnectivity ns (net_now ne) (pingExec ne) =
        (conn\<lparr>fromCache := True\<rparr>, ns) \<and>
      getNetworkStatus ns ne =
        (\<lparr>net_timestamp = net_date_report ne,
          net_severity = fst (networkSeverity (conn\<lparr>fromCache := True\<rparr>) (net_devices ne)),
          interfaces = net_interfaces ne,
          internetConnectivity = conn\<lparr>fromCache := True\<rparr>,
          connectedDevices = net_devices ne,
          net_actionableSummary =
            networkSummary (net_interfaces ne) (conn\<lparr>fromCache := True\<rparr>) (net_devices ne),
          net_recommendations =
            snd (networkSeverity (conn\<lparr>fromCache := True\<rparr>) (net_devices ne)),
          net_nextStepsToCheck = []\<rparr>,
         ns)"
    by (simp add: getNetworkStatus_def checkInternetConnectivity_def CONNECTIVITY_CACHE_TTL_def
        split: prod.splits)
  have 5: "connectivityCache ns = None \<or>
           \<not> net_now ne - connectivityTimestamp ns < 30000 \<longrightarrow>
      checkInternetConnectivity ns (net_now ne) (pingExec ne) =
        (pingResult (pingExec ne),
         \<lparr>connectivityCache = Some (pingResult (pingExec ne)),
          connectivityTimestamp = net_now ne\<rparr>) \<and>
      getNetworkStatus ns ne =
        (\<lparr>net_timestamp = net_date_report ne,
          net_severity = fst (networkSeverity (pingResult (pingExec ne)) (net_devices ne)),
          interfaces = net_interfaces ne,
          internetConnectivity = pingResult (pingExec ne),
          connectedDevices = net_devices ne,
          net_actionableSummary =
            networkSummary (net_interfaces ne) (pingResult (pingExec ne)) (net_devices ne),
          net_recommendations =
            snd (networkSeverity (pingResult (pingExec ne)) (net_devices ne)),
          net_nextStepsToCheck = []\<rparr>,
         \<lparr>connectivityCache = Some (pingResult (pingExec ne)),
          connectivityTimestamp = net_now ne\<rparr>)"
  proof
    assume a: "connectivityCache ns = None \<or>
               \<not> net_now ne - connectivityTimestamp ns < 30000"
    then have m: "checkInternetConnectivity ns (net_now ne) (pingExec ne) =
        (pingResult (pingExec ne),
         \<lparr>connectivityCache = Some (pingResult (pingExec ne)),
          connectivityTimestamp = net_now ne\<rparr>)"
      using network_cache_miss [of ns ne] by (simp add: CONNECTIVITY_CACHE_TTL_def)
    show "checkInternetConnectivity ns (net_now ne) (pingExec ne) =
        (pingResult (pingExec ne),
         \<lparr>connectivityCache = Some (pingResult (pingExec ne)),
          connectivityTimestamp = net_now ne\<rparr>) \<and>
      getNetworkStatus ns ne =
        (\<lparr>net_timestamp = net_date_report ne,
          net_severity = fst (networkSeverity (pingResult (pingExec ne)) (net_devices ne)),
          interfaces = net_interfaces ne,
          internetConnectivity = pingResult (pingExec ne),
          connectedDevices = net_devices ne,
          net_actionableSummary =
            networkSummary (net_interfaces ne) (pingResult (pingExec ne)) (net_devices ne),
          net_recommendations =
            snd (networkSeverity (pingResult (pingExec ne)) (net_devices ne)),
          net_nextStepsToCheck = []\<rparr>,
         \<lparr>connectivityCache = Some (pingResult (pingExec ne)),
          connectivityTimestamp = net_now ne\<rparr>)"
      by (simp add: getNetworkStatus_def m split: prod.splits)
  qed
  from 1 2 3 4 5 show ?thesis by blast
qed

theorem probe_caches_witness:
  "thermalCache (snd (getThermalStatus thermal_initial_state thermal_env_cool)) =
     Some (thermalResult thermal_env_cool)
   \<and> thermal_now thermal_env_hot -
       thermal_cacheTimestamp (snd (getThermalStatus thermal_initial_state thermal_env_cool))
       = 9999
   \<and> getThermalStatus (snd (getThermalStatus thermal_initial_state thermal_env_cool))
       thermal_env_hot =
       (thermalResult thermal_env_cool,
        snd (getThermalStatus thermal_initial_state thermal_env_cool))
   \<and> thermal_now thermal_env_expired -
       thermal_cacheTimestamp (snd (getThermalStatus thermal_initial_state thermal_env_cool))
       = 10000
   \<and> getThermalStatus (snd (getThermalStatus thermal_initial_state thermal_env_cool))
       thermal_env_expired =
       (thermalResult thermal_env_expired,
        \<lparr>thermalCache = Some (thermalResult thermal_env_expired),
         thermal_cacheTimestamp = 11000\<rparr>)
   \<and> thermal_timestamp (thermalResult thermal_env_expired) = 11151
   \<and> connectivityCache (snd (getNetworkStatus network_initial_state network_env_online)) =
       Some (pingResult (Resolved ''True''))
   \<and> net_now network_env_within -
       connectivityTimestamp (snd (getNetworkStatus network_initial_state network_env_online))
       = 29999
   \<and> internetConnectivity (fst (getNetworkStatus
         (snd (getNetworkStatus network_initial_state network_env_online))
         network_env_within)) =
       (pingResult (Resolved ''True''))\<lparr>fromCache := True\<rparr>
   \<and> snd (getNetworkStatus
         (snd (getNetworkStatus network_initial_state network_env_online))
         network_env_within) =
       snd (getNetworkStatus network_initial_state network_env_online)
   \<and> net_now network_env_expired -
       connectivityTimestamp (snd (getNetworkStatus network_initial_state network_env_online))
       = 30000
   \<and> internetConnectivity (fst (getNetworkStatus
         (snd (getNetworkStatus network_initial_state network_env_online))
         network_env_expired)) = pingResult Rejected
   \<and> snd (getNetworkStatus
         (snd (getNetworkStatus network_initial_state network_env_online))
         network_env_expired) =
       \<lparr>connectivityCache = Some (pingResult Rejected), connectivityTimestamp = 31000\<rparr>"
proof -
  let ?ts = "snd (getThermalStatus thermal_initial_state thermal_env_cool)"
  let ?ns = "snd (getNetworkStatus network_initial_state network_env_online)"
  have tc: "thermalCache ?ts = Some (thermalResult thermal_env_cool)"
    and tt: "thermal_cacheTimestamp ?ts = 1000"
    by (simp_all add: thermal_first_call thermal_env_cool_def)
  have nc: "connectivityCache ?ns = Some (pingResult (Resolved ''True''))"
    and nt: "connectivityTimestamp ?ns = 1000"
    by (simp_all add: network_first_call network_env_online_def)
  have tn: "thermal_now thermal_env_hot = 10999" "thermal_now thermal_env_expired = 11000"
    "thermal_date_report thermal_env_expired = 11151"
    by (simp_all add: thermal_env_expired_def thermal_env_hot_def thermal_env_cool_def)
  have nn: "net_now network_env_within = 30999" "net_now network_env_expired = 31000"
    "pingExec network_env_expired = Rejected"
    by (simp_all add: network_env_within_def network_env_expired_def network_env_online_def)
  note hit = probe_caches [where ts = ?ts and cached = "thermalResult thermal_env_cool"
      and te = thermal_env_hot and ns = ?ns and conn = "pingResult (Resolved ''True'')"
      and ne = network_env_within]
  note miss = probe_caches [where ts = ?ts and cached = "thermalResult thermal_env_cool"
      and te = thermal_env_expired and ns = ?ns and conn = "pingResult (Resolved ''True'')"
      and ne = network_env_expired]
  have 1: "getThermalStatus ?ts thermal_env_hot = (thermalResult thermal_env_cool, ?ts)"
    using hit [THEN conjunct1] tc by (simp add: tt tn)
  have 2: "getThermalStatus ?ts thermal_env_expired =
       (thermalResult thermal_env_expired,
        \<lparr>thermalCache = Some (thermalResult thermal_env_expired),
         thermal_cacheTimestamp = 11000\<rparr>)"
    using miss [THEN conjunct2, THEN conjunct1] by (simp add: tt tn)
  have 3: "thermal_timestamp (thermalResult thermal_env_expired) = 11151"
    using miss [THEN conjunct2, THEN conjunct2, THEN conjunct1] by (simp add: tn)
  have 4: "getNetworkStatus ?ns network_env_within =
        (\<lparr>net_timestamp = net_date_report network_env_within,
          net_severity = fst (networkSeverity ((pingResult (Resolved ''True''))\<lparr>fromCache := True\<rparr>)
                                (net_devices network_env_within)),
          interfaces = net_interfaces network_env_within,
          internetConnectivity = (pingResult (Resolved ''True''))\<lparr>fromCache := True\<rparr>,
          connectedDevices = net_devices network_env_within,
          net_actionableSummary =
            networkSummary (net_interfaces network_env_within)
              ((pingResult (Resolved ''True''))\<lparr>fromCache := True\<rparr>)
              (net_devices network_env_within),
          net_recommendations =
            snd (networkSeverity ((pingResult (Resolved ''True''))\<lparr>fromCache := True\<rparr>)
                   (net_devices network_env_within)),
          net_nextStepsToCheck = []\<rparr>,
         ?ns)"
    using hit [THEN conjunct2, THEN conjunct2, THEN conjunct2, THEN conjunct2, THEN conjunct2,
        THEN conjunct1] nc
    by (simp add: nt nn)
  have 5: "getNetworkStatus ?ns network_env_expired =
        (\<lparr>net_timestamp = net_date_report network_env_expired,
          net_severity = fst (networkSeverity (pingResult Rejected)
                                (net_devices network_env_expired)),
          interfaces = net_interfaces network_env_expired,
          internetConnectivity = pingResult Rejected,
          connectedDevices = net_devices network_env_expired,
          net_actionableSummary =
            networkSummary (net_interfaces network_env_expired) (pingResult Rejected)
              (net_devices network_env_expired),
          net_recommendations =
            snd (networkSeverity (pingResult Rejected) (net_devices network_env_expired)),
          net_nextStepsToCheck = []\<rparr>,
         \<lparr>connectivityCache = Some (pingResult Rejected), connectivityTimestamp = 31000\<rparr>)"
    using miss [THEN conjunct2, THEN conjunct2, THEN conjunct2, THEN conjunct2, THEN conjunct2,
        THEN conjunct2]
    by (simp add: nt nn)
  show ?thesis
    by (simp add: tc nc 1 2 3 4 5 tt tn nt nn)
qed

end
